theory Spec2Isabelle
  imports Complex_Main
begin

section \<open>JavaScript values, numbers and errors\<close>

text \<open>
  The triage console is TypeScript. Its functions raise exceptions, read untyped store
  documents and call three collaborators (the document store, the generative model and
  the chat service). In this embedding an exception is the left injection of a sum,
  every collaborator is a function handed to the operation that calls it, and every
  operation returns, beside its result, the list of requests it issued.
  A text is a list of 8-bit characters, each standing for the code unit of the same
  value, so that \<open>length\<close> counts what the \<open>length\<close> of a JavaScript string counts.
\<close>

datatype error =
    Error string  \<comment> \<open>\<open>new Error(message)\<close>, thrown by this code or by a collaborator\<close>
  | SyntaxError  \<comment> \<open>what \<open>JSON.parse\<close> throws on text that is not JSON\<close>
  | TypeError  \<comment> \<open>what the conversion of an object to a string throws when it finds no method\<close>
  | FirestoreError string string  \<comment> \<open>a store failure: its \<open>code\<close> and its \<open>message\<close>\<close>

text \<open>
  A JavaScript number is NaN, an infinity or a finite binary64 value, kept as the
  rational it is. The negative zero is the zero: this code never tells them apart.
\<close>

datatype jsnum = NaN | PosInf | NegInf | Fin rat

definition isNaN :: "jsnum \<Rightarrow> bool" where
  "isNaN n = (n = NaN)"

definition code :: "char \<Rightarrow> nat" where
  "code c = of_char c"

definition is_digit :: "char \<Rightarrow> bool" where
  "is_digit c = (48 \<le> code c \<and> code c \<le> 57)"

definition digit_val :: "char \<Rightarrow> nat" where
  "digit_val c = code c - 48"

definition digits_val :: "string \<Rightarrow> int" where
  "digits_val ds = foldl (\<lambda>a c. 10 * a + int (digit_val c)) 0 ds"

text \<open>
  The binary64 value of a decimal: the nearest value with a 53-bit significand, a tie
  going to the even significand, an infinity from \<open>2 ^ 1024\<close> on and the subnormal
  values below \<open>2 ^ - 1022\<close>. \<open>floor_log2 p d\<close> is the exponent of \<open>p / d\<close> and
  \<open>round_half_even num den\<close> the integer nearest to \<open>num / den\<close>, for positive
  arguments; \<open>to_double neg m x\<close> is the value of the decimal \<open>m\<close> times ten to the
  \<open>x\<close>, negated when \<open>neg\<close> holds.
\<close>

function bit_length :: "int \<Rightarrow> nat" where
  "bit_length n = (if n \<le> 0 then 0 else Suc (bit_length (n div 2)))"
  by pat_completeness auto
termination
  by (relation "measure nat") auto

declare bit_length.simps [simp del]

definition pow2 :: "int \<Rightarrow> rat" where
  "pow2 e = (if 0 \<le> e then 2 ^ nat e else 1 / 2 ^ nat (- e))"

definition floor_log2 :: "int \<Rightarrow> int \<Rightarrow> int" where
  "floor_log2 p d =
     (let k = int (bit_length p) - int (bit_length d) in
      if (if 0 \<le> k then 2 ^ nat k * d \<le> p else d \<le> 2 ^ nat (- k) * p) then k else k - 1)"

definition round_half_even :: "int \<Rightarrow> int \<Rightarrow> int" where
  "round_half_even num den =
     (let q = num div den; r = num mod den in
      if 2 * r < den then q else if den < 2 * r then q + 1 else if even q then q else q + 1)"

definition to_double :: "bool \<Rightarrow> int \<Rightarrow> int \<Rightarrow> jsnum" where
  "to_double neg m x =
     (if m = 0 then Fin 0
      else
        (let p = (if 0 \<le> x then m * 10 ^ nat x else m);
             d = (if 0 \<le> x then 1 else 10 ^ nat (- x));
             E = max (floor_log2 p d) (- 1022);
             s = 52 - E;
             n = (if 0 \<le> s then round_half_even (p * 2 ^ nat s) d
                  else round_half_even p (d * 2 ^ nat (- s)))
         in if 1023 < E \<or> (E = 1023 \<and> 2 ^ 53 \<le> n) then (if neg then NegInf else PosInf)
            else Fin ((if neg then - 1 else 1) * of_int n * pow2 (E - 52))))"

text \<open>
  An exponent part \<open>e\<close>, \<open>e+\<close> or \<open>e-\<close> followed by one digit at least; the result
  is the exponent and the text after it. Both \<open>JSON.parse\<close> and \<open>parseFloat\<close> read
  exponents this way.
\<close>

definition exponent_part :: "string \<Rightarrow> (int \<times> string) option" where
  "exponent_part s =
     (case s of
        [] \<Rightarrow> None
      | c # t \<Rightarrow>
          if c = CHR ''e'' \<or> c = CHR ''E'' then
            (let (neg, u) = (case t of
                               [] \<Rightarrow> (False, t)
                             | d # t' \<Rightarrow> if d = CHR ''-'' then (True, t')
                                        else if d = CHR ''+'' then (False, t') else (False, t));
                 ds = takeWhile is_digit u
             in if ds = [] then None
                else Some ((if neg then - digits_val ds else digits_val ds),
                           dropWhile is_digit u))
          else None)"

section \<open>JSON.parse\<close>

text \<open>
  \<open>JSON.parse\<close> belongs to the JavaScript runtime. The operations below take it as an
  argument; \<open>JSON_parse\<close> is a model of it on 8-bit text, used where a response has to
  be evaluated. A JSON string is the list of its code units, so that a \<open>\u\<close> escape
  has a value whatever its code.
\<close>

datatype json =
    JNull
  | JBool bool
  | JNum jsnum
  | JStr "nat list"
  | JArr "json list"
  | JObj "(nat list \<times> json) list"

datatype token =
    TLBrace | TRBrace | TLBrack | TRBrack | TColon | TComma
  | TScalar json

definition hex_val :: "char \<Rightarrow> nat option" where
  "hex_val c =
     (if is_digit c then Some (digit_val c)
      else if 97 \<le> code c \<and> code c \<le> 102 then Some (code c - 87)
      else if 65 \<le> code c \<and> code c \<le> 70 then Some (code c - 55)
      else None)"

text \<open>The characters of a string literal after its opening quote.\<close>

fun lex_string :: "string \<Rightarrow> (nat list \<times> string) option" where
  "lex_string [] = None"
| "lex_string (c # cs) =
     (if c = CHR 0x22 then Some ([], cs)
      else if c = CHR 0x5C then
        (case cs of
           [] \<Rightarrow> None
         | e # r \<Rightarrow>
             if e = CHR ''u'' then
               (case r of
                  h1 # h2 # h3 # h4 # r' \<Rightarrow>
                    (case (hex_val h1, hex_val h2, hex_val h3, hex_val h4) of
                       (Some a, Some b, Some c', Some d) \<Rightarrow>
                         map_option (\<lambda>(s, rest). ((((a * 16 + b) * 16 + c') * 16 + d) # s, rest))
                           (lex_string r')
                     | _ \<Rightarrow> None)
                | _ \<Rightarrow> None)
             else
               (case (if e = CHR 0x22 then Some 0x22
                      else if e = CHR 0x5C then Some 0x5C
                      else if e = CHR ''/'' then Some 0x2F
                      else if e = CHR ''b'' then Some 0x08
                      else if e = CHR ''f'' then Some 0x0C
                      else if e = CHR ''n'' then Some 0x0A
                      else if e = CHR ''r'' then Some 0x0D
                      else if e = CHR ''t'' then Some (0x09 :: nat)
                      else None) of
                  None \<Rightarrow> None
                | Some u \<Rightarrow> map_option (\<lambda>(s, rest). (u # s, rest)) (lex_string r)))
      else if code c < 0x20 then None
      else map_option (\<lambda>(s, rest). (code c # s, rest)) (lex_string cs))"

text \<open>
  A number: an optional minus, \<open>0\<close> or a digit sequence without leading zero, an
  optional fraction with one digit at least, an optional exponent.
\<close>

definition minus_part :: "string \<Rightarrow> bool \<times> string" where
  "minus_part s =
     (case s of [] \<Rightarrow> (False, s) | c # t \<Rightarrow> if c = CHR ''-'' then (True, t) else (False, s))"

definition fraction_part :: "string \<Rightarrow> string \<times> string" where
  "fraction_part s =
     (case s of
        [] \<Rightarrow> ([], s)
      | p # t \<Rightarrow>
          if p = CHR ''.'' \<and> takeWhile is_digit t \<noteq> []
          then (takeWhile is_digit t, dropWhile is_digit t)
          else ([], s))"

definition lex_number :: "string \<Rightarrow> (jsnum \<times> string) option" where
  "lex_number s =
     (case minus_part s of
        (neg, s1) \<Rightarrow>
          (case s1 of
             [] \<Rightarrow> None
           | d # t \<Rightarrow>
               if \<not> is_digit d then None
               else
                 (let ip = (if d = CHR ''0'' then [d] else d # takeWhile is_digit t);
                      s2 = (if d = CHR ''0'' then t else dropWhile is_digit t)
                  in case fraction_part s2 of
                       (fp, s3) \<Rightarrow>
                         (case exponent_part s3 of
                            None \<Rightarrow>
                              Some (to_double neg (digits_val (ip @ fp)) (- int (length fp)), s3)
                          | Some (ex, s4) \<Rightarrow>
                              Some (to_double neg (digits_val (ip @ fp)) (ex - int (length fp)),
                                    s4)))))"

definition is_json_space :: "char \<Rightarrow> bool" where
  "is_json_space c = (code c = 0x20 \<or> code c = 0x09 \<or> code c = 0x0A \<or> code c = 0x0D)"

text \<open>
  The tokens of a text. \<open>skip\<close> counts the characters of the token just read that
  are still to be passed over.
\<close>

fun lex_from :: "nat \<Rightarrow> string \<Rightarrow> token list option" where
  "lex_from skip [] = Some []"
| "lex_from skip (c # cs) =
     (if 0 < skip then lex_from (skip - 1) cs
      else if is_json_space c then lex_from 0 cs
      else if c = CHR ''{'' then map_option ((#) TLBrace) (lex_from 0 cs)
      else if c = CHR ''}'' then map_option ((#) TRBrace) (lex_from 0 cs)
      else if c = CHR ''['' then map_option ((#) TLBrack) (lex_from 0 cs)
      else if c = CHR '']'' then map_option ((#) TRBrack) (lex_from 0 cs)
      else if c = CHR '':'' then map_option ((#) TColon) (lex_from 0 cs)
      else if c = CHR '','' then map_option ((#) TComma) (lex_from 0 cs)
      else if c = CHR 0x22 then
        (case lex_string cs of
           None \<Rightarrow> None
         | Some (s, rest) \<Rightarrow>
             map_option ((#) (TScalar (JStr s))) (lex_from (length cs - length rest) cs))
      else if c = CHR ''-'' \<or> is_digit c then
        (case lex_number (c # cs) of
           None \<Rightarrow> None
         | Some (v, rest) \<Rightarrow>
             map_option ((#) (TScalar (JNum v))) (lex_from (length cs - length rest) cs))
      else if c = CHR ''t'' \<and> take 3 cs = ''rue'' then
        map_option ((#) (TScalar (JBool True))) (lex_from 3 cs)
      else if c = CHR ''f'' \<and> take 4 cs = ''alse'' then
        map_option ((#) (TScalar (JBool False))) (lex_from 4 cs)
      else if c = CHR ''n'' \<and> take 3 cs = ''ull'' then
        map_option ((#) (TScalar JNull)) (lex_from 3 cs)
      else None)"

definition lex :: "string \<Rightarrow> token list option" where
  "lex s = lex_from 0 s"

text \<open>
  The parser is a stack machine over the tokens: a frame is an array or an object under
  construction, the state says what may come next.
\<close>

datatype frame =
    FArr "json list"
  | FObj "(nat list \<times> json) list" "nat list option"

datatype pstate =
    PValue | PArrFirst | PArrNext | PObjFirst | PObjKey | PColon | PObjNext
  | PDone json

text \<open>
  The members of an object are enumerated with the array indices first, in ascending
  order, and then the other keys in the order of their first occurrence; a repeated key
  keeps its place and takes the last value.
\<close>

definition array_index :: "nat list \<Rightarrow> int option" where
  "array_index k =
     (let n = foldl (\<lambda>a u. 10 * a + (int u - 48)) 0 k in
      if k \<noteq> [] \<and> list_all (\<lambda>u. 48 \<le> u \<and> u \<le> 57) k \<and> (k = [48] \<or> hd k \<noteq> 48)
         \<and> n < 4294967295
      then Some n else None)"

fun obj_replace :: "(nat list \<times> json) list \<Rightarrow> nat list \<Rightarrow> json \<Rightarrow> (nat list \<times> json) list" where
  "obj_replace [] k v = []"
| "obj_replace ((k', v') # ms) k v =
     (if k' = k then (k, v) # ms else (k', v') # obj_replace ms k v)"

fun obj_insert :: "(nat list \<times> json) list \<Rightarrow> nat list \<Rightarrow> json \<Rightarrow> (nat list \<times> json) list" where
  "obj_insert [] k v = [(k, v)]"
| "obj_insert ((k', v') # ms) k v =
     (case array_index k of
        None \<Rightarrow> (k', v') # obj_insert ms k v
      | Some i \<Rightarrow>
          (case array_index k' of
             None \<Rightarrow> (k, v) # (k', v') # ms
           | Some j \<Rightarrow> if j < i then (k', v') # obj_insert ms k v else (k, v) # (k', v') # ms))"

definition obj_set :: "(nat list \<times> json) list \<Rightarrow> nat list \<Rightarrow> json \<Rightarrow> (nat list \<times> json) list" where
  "obj_set ms k v = (if map_of ms k = None then obj_insert ms k v else obj_replace ms k v)"

fun reduce :: "json \<Rightarrow> frame list \<Rightarrow> (pstate \<times> frame list) option" where
  "reduce v [] = Some (PDone v, [])"
| "reduce v (FArr es # st) = Some (PArrNext, FArr (es @ [v]) # st)"
| "reduce v (FObj ms (Some k) # st) = Some (PObjNext, FObj (obj_set ms k v) None # st)"
| "reduce v (FObj ms None # st) = None"

definition open_value :: "token \<Rightarrow> frame list \<Rightarrow> (pstate \<times> frame list) option" where
  "open_value t st =
     (case t of
        TScalar v \<Rightarrow> reduce v st
      | TLBrack \<Rightarrow> Some (PArrFirst, FArr [] # st)
      | TLBrace \<Rightarrow> Some (PObjFirst, FObj [] None # st)
      | _ \<Rightarrow> None)"

definition close_array :: "frame list \<Rightarrow> (pstate \<times> frame list) option" where
  "close_array st = (case st of FArr es # st' \<Rightarrow> reduce (JArr es) st' | _ \<Rightarrow> None)"

definition close_object :: "frame list \<Rightarrow> (pstate \<times> frame list) option" where
  "close_object st = (case st of FObj ms None # st' \<Rightarrow> reduce (JObj ms) st' | _ \<Rightarrow> None)"

definition take_key :: "token \<Rightarrow> frame list \<Rightarrow> (pstate \<times> frame list) option" where
  "take_key t st =
     (case (t, st) of
        (TScalar (JStr k), FObj ms None # st') \<Rightarrow> Some (PColon, FObj ms (Some k) # st')
      | _ \<Rightarrow> None)"

fun pstep :: "pstate \<Rightarrow> frame list \<Rightarrow> token \<Rightarrow> (pstate \<times> frame list) option" where
  "pstep PValue st t = open_value t st"
| "pstep PArrFirst st t = (if t = TRBrack then close_array st else open_value t st)"
| "pstep PArrNext st t =
     (if t = TComma then Some (PValue, st) else if t = TRBrack then close_array st else None)"
| "pstep PObjFirst st t = (if t = TRBrace then close_object st else take_key t st)"
| "pstep PObjKey st t = take_key t st"
| "pstep PColon st t = (if t = TColon then Some (PValue, st) else None)"
| "pstep PObjNext st t =
     (if t = TComma then Some (PObjKey, st) else if t = TRBrace then close_object st else None)"
| "pstep (PDone v) st t = None"

fun parse_tokens :: "pstate \<Rightarrow> frame list \<Rightarrow> token list \<Rightarrow> json option" where
  "parse_tokens p st [] = (case p of PDone v \<Rightarrow> Some v | _ \<Rightarrow> None)"
| "parse_tokens p st (t # ts) =
     (case pstep p st t of None \<Rightarrow> None | Some (p', st') \<Rightarrow> parse_tokens p' st' ts)"

definition JSON_parse :: "string \<Rightarrow> json option" where
  "JSON_parse s = (case lex s of None \<Rightarrow> None | Some ts \<Rightarrow> parse_tokens PValue [] ts)"

section \<open>Store documents\<close>

text \<open>
  A document of the store is a mapping from field names to untyped values; the field
  order is the order \<open>Object.keys\<close> enumerates. A value is null, a boolean, a
  number, a string, the store's own temporal object (the one value with a \<open>toDate\<close>
  method), an array or a nested map. A field that is missing reads as \<open>undefined\<close>,
  here \<open>None\<close>.
\<close>

datatype timestamp = Timestamp int nat  \<comment> \<open>seconds and nanoseconds\<close>

datatype jsval =
    VNull
  | VBool bool
  | VNum jsnum
  | VStr string
  | VTimestamp timestamp
  | VArr "jsval list"
  | VMap "(string \<times> jsval) list"

type_synonym document_data = "(string \<times> jsval) list"

definition get :: "document_data \<Rightarrow> string \<Rightarrow> jsval option" where
  "get data k = map_of data k"

text \<open>
  What the runtime supplies and this code only calls: the rendering of a date, which
  depends on the locale and the time zone of the runtime, and the decimal rendering of a
  finite number, which the language fixes.
\<close>

record js_env =
  toLocaleString :: "timestamp \<Rightarrow> string"
  numberToString :: "rat \<Rightarrow> string"

fun truthy :: "jsval \<Rightarrow> bool" where
  "truthy VNull = False"
| "truthy (VBool b) = b"
| "truthy (VNum n) = (n \<noteq> NaN \<and> n \<noteq> Fin 0)"
| "truthy (VStr s) = (s \<noteq> [])"
| "truthy (VTimestamp t) = True"
| "truthy (VArr xs) = True"
| "truthy (VMap ms) = True"

definition truthy_field :: "jsval option \<Rightarrow> bool" where
  "truthy_field f = (case f of None \<Rightarrow> False | Some v \<Rightarrow> truthy v)"

fun join :: "string \<Rightarrow> string list \<Rightarrow> string" where
  "join sep [] = []"
| "join sep [x] = x"
| "join sep (x # y # ys) = x @ sep @ join sep (y # ys)"

fun show_nat :: "nat \<Rightarrow> string" where
  "show_nat n =
     (if n < 10 then [char_of (48 + n)] else show_nat (n div 10) @ [char_of (48 + n mod 10)])"

declare show_nat.simps [simp del]

definition show_int :: "int \<Rightarrow> string" where
  "show_int i = (if i < 0 then CHR ''-'' # show_nat (nat (- i)) else show_nat (nat i))"

text \<open>The results of a list of conversions, or the first failure among them.\<close>

fun sequence :: "(error + 'a) list \<Rightarrow> error + 'a list" where
  "sequence [] = Inr []"
| "sequence (x # xs) =
     (case x of
        Inl e \<Rightarrow> Inl e
      | Inr v \<Rightarrow> (case sequence xs of Inl e \<Rightarrow> Inl e | Inr vs \<Rightarrow> Inr (v # vs)))"

text \<open>
  \<open>String(v)\<close>, which \<open>parseFloat\<close> and a template literal apply as well. The
  conversion of an object calls its \<open>toString\<close>. The temporal object has its own; an
  array joins the conversions of its elements; a map inherits the one that answers
  \<open>[object Object]\<close>, unless it has a field named \<open>toString\<close>: that field hides the
  inherited method, it holds no function, and the conversion throws a \<open>TypeError\<close>.
\<close>

fun toString :: "js_env \<Rightarrow> jsval \<Rightarrow> error + string" where
  "toString env VNull = Inr ''null''"
| "toString env (VBool b) = Inr (if b then ''true'' else ''false'')"
| "toString env (VNum NaN) = Inr ''NaN''"
| "toString env (VNum PosInf) = Inr ''Infinity''"
| "toString env (VNum NegInf) = Inr ''-Infinity''"
| "toString env (VNum (Fin q)) = Inr (numberToString env q)"
| "toString env (VStr s) = Inr s"
| "toString env (VTimestamp (Timestamp secs nanos)) =
     Inr (''Timestamp(seconds='' @ show_int secs @ '', nanoseconds='' @ show_nat nanos @ '')'')"
| "toString env (VArr xs) =
     (case sequence (map (\<lambda>x. if x = VNull then Inr [] else toString env x) xs) of
        Inl e \<Rightarrow> Inl e
      | Inr parts \<Rightarrow> Inr (join '','' parts))"
| "toString env (VMap ms) =
     (if map_of ms ''toString'' \<noteq> None then Inl TypeError else Inr ''[object Object]'')"

definition toString_field :: "js_env \<Rightarrow> jsval option \<Rightarrow> error + string" where
  "toString_field env f = (case f of None \<Rightarrow> Inr ''undefined'' | Some v \<Rightarrow> toString env v)"

fun starts_with :: "string \<Rightarrow> string \<Rightarrow> bool" where
  "starts_with s [] = True"
| "starts_with [] (p # ps) = False"
| "starts_with (c # cs) (p # ps) = (c = p \<and> starts_with cs ps)"

subsection \<open>parseFloat\<close>

definition is_js_space :: "char \<Rightarrow> bool" where
  "is_js_space c = (code c \<in> {0x09, 0x0A, 0x0B, 0x0C, 0x0D, 0x20, 0xA0})"

definition sign_part :: "string \<Rightarrow> bool \<times> string" where
  "sign_part s =
     (case s of
        [] \<Rightarrow> (False, s)
      | c # t \<Rightarrow> if c = CHR ''-'' then (True, t) else if c = CHR ''+'' then (False, t) else (False, s))"

text \<open>
  \<open>parseFloat\<close> skips leading white space and reads the longest prefix that is a
  decimal literal: a sign, then \<open>Infinity\<close> or digits with an optional fraction and an
  optional exponent. What follows the prefix is ignored; no such prefix gives NaN.
\<close>

definition parseFloat_str :: "string \<Rightarrow> jsnum" where
  "parseFloat_str s =
     (case sign_part (dropWhile is_js_space s) of
        (neg, u) \<Rightarrow>
          if starts_with u ''Infinity'' then (if neg then NegInf else PosInf)
          else
            (let ip = takeWhile is_digit u;
                 r1 = dropWhile is_digit u;
                 (fp, r2) = (case r1 of
                               [] \<Rightarrow> ([], r1)
                             | p # t \<Rightarrow>
                                 if p = CHR ''.''
                                 then (takeWhile is_digit t, dropWhile is_digit t)
                                 else ([], r1))
             in if ip = [] \<and> fp = [] then NaN
                else to_double neg (digits_val (ip @ fp))
                       ((case exponent_part r2 of None \<Rightarrow> 0 | Some (ex, r3) \<Rightarrow> ex)
                        - int (length fp))))"

text \<open>\<open>parseFloat(v)\<close> converts \<open>v\<close> to a string first.\<close>

definition parseFloat :: "js_env \<Rightarrow> jsval option \<Rightarrow> error + jsnum" where
  "parseFloat env f =
     (case toString_field env f of Inl e \<Rightarrow> Inl e | Inr s \<Rightarrow> Inr (parseFloat_str s))"

section \<open>Report Normalizer\<close>

text \<open>
  The interface \<open>Report\<close>. The declared type of the four text fields is \<open>string\<close>;
  the normalizer copies store values into them unchanged, so what it builds is a
  \<open>jsval report\<close>, and the operations on reports take a \<open>string report\<close>.
\<close>

record 'v report =
  id_report :: string
  address :: 'v
  dateTime :: 'v
  description :: 'v
  imageBase64 :: 'v
  latitude :: jsnum
  longitude :: jsnum
  timestampString :: "string option"

text \<open>\<open>v || d\<close> for a field \<open>v\<close> and a string \<open>d\<close>.\<close>

definition or_default :: "jsval option \<Rightarrow> string \<Rightarrow> jsval" where
  "or_default f d = (case f of None \<Rightarrow> VStr d | Some v \<Rightarrow> if truthy v then v else VStr d)"

definition timestampStr :: "js_env \<Rightarrow> document_data \<Rightarrow> error + string" where
  "timestampStr env data =
     (case get data ''timestamp'' of
        Some (VTimestamp t) \<Rightarrow> Inr (toLocaleString env t)
      | _ \<Rightarrow>
          if truthy_field (get data ''timestamp'') then toString_field env (get data ''timestamp'')
          else if truthy_field (get data ''timestampJanuary'')
          then
            (case toString_field env (get data ''timestampJanuary'') of
               Inl e \<Rightarrow> Inl e
             | Inr s \<Rightarrow> Inr (''January '' @ s))
          else
            (case find (\<lambda>k. starts_with k ''timestamp'') (map fst data) of
               Some tsKey \<Rightarrow> toString_field env (get data tsKey)
             | None \<Rightarrow> Inr ''Unknown Time''))"

definition imgBase64 :: "document_data \<Rightarrow> jsval" where
  "imgBase64 data =
     (let img = or_default (get data ''imageBase64'') [] in
      if img = VStr ''...'' then VStr [] else img)"

text \<open>
  The body of the loop of \<open>fetchReports\<close> for one document; \<open>now\<close> is
  \<open>new Date().toISOString()\<close>, the instant at which the document is normalized. The
  coordinates are parsed first, then the timestamp is resolved, then the report is
  built; a conversion that throws ends the body with no report.
\<close>

definition normalize_report ::
  "js_env \<Rightarrow> string \<Rightarrow> string \<Rightarrow> document_data \<Rightarrow> error + jsval report" where
  "normalize_report env now doc_id data =
     (case parseFloat env (get data ''latitude'') of
        Inl e \<Rightarrow> Inl e
      | Inr lat \<Rightarrow>
          (case parseFloat env (get data ''longitude'') of
             Inl e \<Rightarrow> Inl e
           | Inr lng \<Rightarrow>
               (case timestampStr env data of
                  Inl e \<Rightarrow> Inl e
                | Inr timestamp_str \<Rightarrow>
                    Inr \<lparr> id_report = doc_id,
                          address = or_default (get data ''address'') ''Unknown Location'',
                          dateTime = or_default (get data ''dateTime'') now,
                          description =
                            or_default (get data ''description'') ''No description provided'',
                          imageBase64 = imgBase64 data,
                          latitude = (if isNaN lat then Fin 0 else lat),
                          longitude = (if isNaN lng then Fin 0 else lng),
                          timestampString = Some timestamp_str \<rparr>)))"

text \<open>The \<open>message\<close> of an error; those of the runtime's own errors in its wording.\<close>

definition message :: "error \<Rightarrow> string" where
  "message e =
     (case e of
        Error m \<Rightarrow> m
      | SyntaxError \<Rightarrow> ''Unexpected token''
      | TypeError \<Rightarrow> ''Cannot convert object to primitive value''
      | FirestoreError c m \<Rightarrow> m)"

text \<open>
  \<open>fetchReports\<close>: the store's listing either fails or gives the documents with their
  identifiers; \<open>clock i\<close> is the instant at which document \<open>i\<close> is normalized. Whatever
  is thrown, by the store or in the loop, is caught and thrown again as an \<open>Error\<close> with
  the same message.
\<close>

fun normalize_all ::
  "js_env \<Rightarrow> (nat \<Rightarrow> string) \<Rightarrow> nat \<Rightarrow> (string \<times> document_data) list \<Rightarrow> error + jsval report list" where
  "normalize_all env clock i [] = Inr []"
| "normalize_all env clock i ((doc_id, data) # docs) =
     (case normalize_report env (clock i) doc_id data of
        Inl e \<Rightarrow> Inl e
      | Inr r \<Rightarrow>
          (case normalize_all env clock (Suc i) docs of
             Inl e \<Rightarrow> Inl e
           | Inr rs \<Rightarrow> Inr (r # rs)))"

definition fetchReports ::
  "js_env \<Rightarrow> (nat \<Rightarrow> string) \<Rightarrow> error + (string \<times> document_data) list \<Rightarrow> error + jsval report list" where
  "fetchReports env clock getDocs =
     (case (case getDocs of Inl e \<Rightarrow> Inl e | Inr docs \<Rightarrow> normalize_all env clock 0 docs) of
        Inl e \<Rightarrow> Inl (Error (if message e \<noteq> [] then message e else ''Unknown Firestore Error''))
      | Inr rs \<Rightarrow> Inr rs)"

text \<open>A built report has the declared type when its four text fields hold strings.\<close>

definition typed :: "jsval report \<Rightarrow> string report option" where
  "typed r =
     (case (address r, dateTime r, description r, imageBase64 r) of
        (VStr a, VStr t, VStr d, VStr i) \<Rightarrow>
          Some \<lparr> id_report = id_report r, address = a, dateTime = t, description = d,
                 imageBase64 = i, latitude = latitude r, longitude = longitude r,
                 timestampString = timestampString r \<rparr>
      | _ \<Rightarrow> None)"

text \<open>
  The timestamp rule as the specification words it: a temporal object first, then a
  string-typed \<open>timestamp\<close> field, then the month-literal key, then the first field
  whose name starts with \<open>timestamp\<close>, then the fallback.
\<close>

definition timestampString_spec :: "js_env \<Rightarrow> document_data \<Rightarrow> error + string" where
  "timestampString_spec env data =
     (case get data ''timestamp'' of
        Some (VTimestamp t) \<Rightarrow> Inr (toLocaleString env t)
      | Some (VStr s) \<Rightarrow> Inr s
      | _ \<Rightarrow>
          (case get data ''timestampJanuary'' of
             Some v \<Rightarrow>
               (case toString env v of Inl e \<Rightarrow> Inl e | Inr s \<Rightarrow> Inr (''January '' @ s))
           | None \<Rightarrow>
               (case find (\<lambda>k. starts_with k ''timestamp'') (map fst data) of
                  Some tsKey \<Rightarrow> toString_field env (get data tsKey)
                | None \<Rightarrow> Inr ''Unknown Time'')))"

text \<open>
  Two runtimes for the examples, with one rendering of dates each, as a locale of the
  United States and one of the United Kingdom give it.
\<close>

definition example_env :: js_env where
  "example_env = \<lparr> toLocaleString = (\<lambda>t. ''1/15/2026, 9:30:00 AM''),
                   numberToString = (\<lambda>q. ''0'') \<rparr>"

definition example_env_gb :: js_env where
  "example_env_gb = \<lparr> toLocaleString = (\<lambda>t. ''15/01/2026, 09:30:00''),
                      numberToString = (\<lambda>q. ''0'') \<rparr>"

section \<open>The generative model service\<close>

text \<open>
  A request to the model carries a fixed instruction text, a fixed model name and a
  fixed output schema; a request is represented by what varies: the formatted reports of
  an analysis, or the media type, the payload and the description of an audit. The
  service answers a request with a response, whose text may be missing, or fails.
\<close>

datatype gen_request =
    AnalysisRequest string
  | AuditRequest string string string

type_synonym gen_service = "gen_request \<Rightarrow> error + string option"

text \<open>
  The output schema of \<open>analyzeReports\<close>: an object with the narrative and the array
  of verdicts, each verdict with its seven required fields.
\<close>

definition ustr :: "string \<Rightarrow> nat list" where
  "ustr s = map code s"

definition field_string :: "(nat list \<times> json) list \<Rightarrow> string \<Rightarrow> bool" where
  "field_string ms k = (case map_of ms (ustr k) of Some (JStr s) \<Rightarrow> True | _ \<Rightarrow> False)"

definition field_boolean :: "(nat list \<times> json) list \<Rightarrow> string \<Rightarrow> bool" where
  "field_boolean ms k = (case map_of ms (ustr k) of Some (JBool b) \<Rightarrow> True | _ \<Rightarrow> False)"

definition conforms_SolutionItem :: "json \<Rightarrow> bool" where
  "conforms_SolutionItem j =
     (case j of
        JObj ms \<Rightarrow>
          field_string ms ''reportId''
          \<and> (case map_of ms (ustr ''severity'') of
                Some (JStr s) \<Rightarrow>
                  s \<in> set (map ustr [''Critical'', ''High'', ''Medium'', ''Low''])
              | _ \<Rightarrow> False)
          \<and> field_string ms ''displayTitle''
          \<and> field_string ms ''actionPlan''
          \<and> field_string ms ''recommendedResource''
          \<and> field_string ms ''justification''
          \<and> field_boolean ms ''isRelevant''
      | _ \<Rightarrow> False)"

definition conforms_AnalysisResult :: "json \<Rightarrow> bool" where
  "conforms_AnalysisResult j =
     (case j of
        JObj ms \<Rightarrow>
          field_string ms ''strategicOverview''
          \<and> (case map_of ms (ustr ''prioritizedReports'') of
                Some (JArr items) \<Rightarrow> list_all conforms_SolutionItem items
              | _ \<Rightarrow> False)
      | _ \<Rightarrow> False)"

definition newline_indent :: string where
  "newline_indent = CHR 0x0A # ''    ''"

definition reportSummary :: "string report \<Rightarrow> string" where
  "reportSummary r =
     ''ID: '' @ id_report r @ newline_indent
     @ ''Location: '' @ address r @ newline_indent
     @ ''Issue: '' @ description r @ newline_indent
     @ ''Time: '' @ (case timestampString r of
                       None \<Rightarrow> dateTime r
                     | Some t \<Rightarrow> if t \<noteq> [] then t else dateTime r)"

definition reportSummaries :: "string report list \<Rightarrow> string" where
  "reportSummaries reports = join (CHR 0x0A # ''---'' @ [CHR 0x0A]) (map reportSummary reports)"

text \<open>
  \<open>analyzeReports\<close>. The result is the value the promise resolves to, \<open>JNull\<close> for
  \<open>null\<close>, or the error it rejects with, together with the requests issued. The cast
  \<open>as AnalysisResult\<close> does nothing at run time.
\<close>

definition analyzeReports ::
  "(string \<Rightarrow> json option) \<Rightarrow> gen_service \<Rightarrow> string report list \<Rightarrow> (error + json) \<times> gen_request list" where
  "analyzeReports parse generateContent reports =
     (if length reports = 0 then (Inr JNull, [])
      else
        (let request = AnalysisRequest (reportSummaries reports) in
         case generateContent request of
           Inl e \<Rightarrow> (Inl e, [request])
         | Inr response_text \<Rightarrow>
             (case response_text of
                None \<Rightarrow> (Inr JNull, [request])
              | Some t \<Rightarrow>
                  if t \<noteq> [] then
                    (case parse t of
                       None \<Rightarrow> (Inl SyntaxError, [request])
                     | Some v \<Rightarrow> (Inr v, [request]))
                  else (Inr JNull, [request]))))"

subsection \<open>Image audit\<close>

text \<open>
  The regular expression \<open>/data:(.*?);base64,(.*)/\<close>: the leftmost \<open>data:\<close> after
  which a shortest run without line terminators leads to \<open>;base64,\<close>; the second group
  runs to the next line terminator.
\<close>

definition is_line_terminator :: "char \<Rightarrow> bool" where
  "is_line_terminator c = (code c = 0x0A \<or> code c = 0x0D)"

fun lazy_until_base64 :: "string \<Rightarrow> (string \<times> string) option" where
  "lazy_until_base64 [] = None"
| "lazy_until_base64 (c # cs) =
     (if starts_with (c # cs) '';base64,'' then Some ([], drop 8 (c # cs))
      else if is_line_terminator c then None
      else map_option (\<lambda>(u, w). (c # u, w)) (lazy_until_base64 cs))"

fun match_data_url :: "string \<Rightarrow> (string \<times> string) option" where
  "match_data_url [] = None"
| "match_data_url (c # cs) =
     (if starts_with (c # cs) ''data:'' then
        (case lazy_until_base64 (drop 5 (c # cs)) of
           Some (u, w) \<Rightarrow> Some (u, takeWhile (\<lambda>x. \<not> is_line_terminator x) w)
         | None \<Rightarrow> match_data_url cs)
      else match_data_url cs)"

fun includes_str :: "string \<Rightarrow> string \<Rightarrow> bool" where
  "includes_str [] p = (p = [])"
| "includes_str (c # cs) p = (starts_with (c # cs) p \<or> includes_str cs p)"

text \<open>\<open>s.split(p)\<close> for a non-empty \<open>p\<close>: the pieces of \<open>s\<close> between the occurrences of \<open>p\<close>.\<close>

fun split_acc :: "string \<Rightarrow> nat \<Rightarrow> string \<Rightarrow> string \<Rightarrow> string list" where
  "split_acc p skip piece [] = [piece]"
| "split_acc p skip piece (c # cs) =
     (if 0 < skip then split_acc p (skip - 1) piece cs
      else if starts_with (c # cs) p then piece # split_acc p (length p - 1) [] cs
      else split_acc p 0 (piece @ [c]) cs)"

definition split_str :: "string \<Rightarrow> string \<Rightarrow> string list" where
  "split_str s p = split_acc p 0 [] s"

definition mime_and_payload :: "string \<Rightarrow> string \<times> string" where
  "mime_and_payload img =
     (if includes_str img ''data:'' \<and> includes_str img ''base64,'' then
        (case match_data_url img of
           Some (m1, m2) \<Rightarrow> (m1, m2)
         | None \<Rightarrow> (''image/jpeg'', img))
      else if includes_str img ''base64,'' then
        (case split_str img ''base64,'' of
           a # b # rest \<Rightarrow> (''image/jpeg'', b)
         | _ \<Rightarrow> (''image/jpeg'', img))
      else (''image/jpeg'', img))"

definition audit_request :: "string report \<Rightarrow> gen_request" where
  "audit_request r =
     (case mime_and_payload (imageBase64 r) of
        (mimeType, cleanBase64) \<Rightarrow> AuditRequest mimeType cleanBase64 (description r))"

text \<open>\<open>verifyReportImage\<close>; results as for \<open>analyzeReports\<close>.\<close>

definition verifyReportImage ::
  "(string \<Rightarrow> json option) \<Rightarrow> gen_service \<Rightarrow> string report \<Rightarrow> (error + json) \<times> gen_request list" where
  "verifyReportImage parse generateContent r =
     (if imageBase64 r = [] \<or> length (imageBase64 r) < 50
      then (Inl (Error ''No valid image to verify''), [])
      else
        (let request = audit_request r in
         case generateContent request of
           Inl e \<Rightarrow> (Inl e, [request])
         | Inr response_text \<Rightarrow>
             (case response_text of
                None \<Rightarrow> (Inr JNull, [request])
              | Some t \<Rightarrow>
                  if t \<noteq> [] then
                    (case parse t of
                       None \<Rightarrow> (Inl SyntaxError, [request])
                     | Some v \<Rightarrow> (Inr v, [request]))
                  else (Inr JNull, [request]))))"

text \<open>Reports for the examples.\<close>

definition pothole_report :: "string report" where
  "pothole_report =
     \<lparr> id_report = ''r1'', address = ''Jalan 1'', dateTime = ''2026-01-15T09:30:00.000Z'',
       description = ''Deep pothole'', imageBase64 = [], latitude = Fin 0, longitude = Fin 0,
       timestampString = None \<rparr>"

definition photo_report :: "string report" where
  "photo_report =
     pothole_report \<lparr> imageBase64 :=
       ''data:image/png;base64,iVBORw0KGgoAAAANSUhEUgAAAAEAAAABCAYAAAAfFcSJAAAADUlEQVR42mNk'' \<rparr>"

section \<open>Consultation session\<close>

text \<open>
  The chat handle answers a message with a response, whose text may be missing, or
  fails. \<open>sendChatMessage\<close> returns the reply or rethrows the failure, together with the
  messages it sent.
\<close>

type_synonym chat = "string \<Rightarrow> error + string option"

definition sendChatMessage :: "chat \<Rightarrow> string \<Rightarrow> (error + string) \<times> string list" where
  "sendChatMessage chat msg =
     (case chat msg of
        Inl e \<Rightarrow> (Inl e, [msg])
      | Inr result_text \<Rightarrow>
          (Inr (case result_text of
                  None \<Rightarrow> ''I couldn'' @ [CHR 0x27] @ ''t generate a response.''
                | Some t \<Rightarrow> if t \<noteq> [] then t
                           else ''I couldn'' @ [CHR 0x27] @ ''t generate a response.''),
           [msg]))"

datatype role = user | model

record chat_message =
  role :: role
  text_msg :: string
  timestamp :: "nat option"

text \<open>The chat state of the solution panel.\<close>

record panel =
  messages :: "chat_message list"
  input :: string
  chatLoading :: bool
  chatRef :: "chat option"

definition trim :: "string \<Rightarrow> string" where
  "trim s = rev (dropWhile is_js_space (rev (dropWhile is_js_space s)))"

text \<open>
  \<open>handleSendChat\<close>; \<open>sent_at\<close> and \<open>replied_at\<close> are the two readings of the clock,
  for the operator's message and for the message appended after the call.
\<close>

definition handleSendChat :: "nat \<Rightarrow> nat \<Rightarrow> panel \<Rightarrow> panel \<times> string list" where
  "handleSendChat sent_at replied_at p =
     (case chatRef p of
        None \<Rightarrow> (p, [])
      | Some chat \<Rightarrow>
          if trim (input p) = [] then (p, [])
          else
            (let userMsg = \<lparr> role = user, text_msg = input p, timestamp = Some sent_at \<rparr>;
                 p1 = p \<lparr> messages := messages p @ [userMsg], input := [], chatLoading := True \<rparr>
             in case sendChatMessage chat (text_msg userMsg) of
                  (Inr responseText, sent) \<Rightarrow>
                    (p1 \<lparr> messages := messages p1 @
                            [\<lparr> role = model, text_msg = responseText, timestamp = Some replied_at \<rparr>],
                          chatLoading := False \<rparr>, sent)
                | (Inl err, sent) \<Rightarrow>
                    (p1 \<lparr> messages := messages p1 @
                            [\<lparr> role = model,
                               text_msg = ''Sorry, I encountered an error responding to that.'',
                               timestamp = Some replied_at \<rparr>],
                          chatLoading := False \<rparr>, sent)))"

section \<open>Deletion workflow\<close>

text \<open>
  The store's delete operation either succeeds or fails with an error.
  \<open>deleteReport\<close> returns its outcome together with the identifiers it passed to the
  store; an empty identifier is rejected before the store is called.
\<close>

type_synonym store_delete = "string \<Rightarrow> error + unit"

definition deleteReport :: "store_delete \<Rightarrow> string \<Rightarrow> (error + unit) \<times> string list" where
  "deleteReport deleteDoc rid =
     (if rid = [] then (Inl (Error ''Invalid ID provided''), [])
      else
        (case deleteDoc rid of
           Inr u \<Rightarrow> (Inr (), [rid])
         | Inl e \<Rightarrow>
             (case e of
                FirestoreError c m \<Rightarrow>
                  if c = ''permission-denied''
                  then (Inl (Error ''Permission denied: You do not have rights to delete this report.''), [rid])
                  else (Inl (Error (if message e \<noteq> [] then message e else ''Failed to delete report'')), [rid])
              | _ \<Rightarrow>
                  (Inl (Error (if message e \<noteq> [] then message e else ''Failed to delete report'')), [rid]))))"

text \<open>The application state: the working set of reports and the alerts shown.\<close>

record app_state =
  reports :: "string report list"
  alerts :: "string list"

definition handleDelete :: "store_delete \<Rightarrow> string \<Rightarrow> app_state \<Rightarrow> app_state \<times> string list" where
  "handleDelete deleteDoc rid a =
     (case deleteReport deleteDoc rid of
        (Inr u, calls) \<Rightarrow> (a \<lparr> reports := filter (\<lambda>r. id_report r \<noteq> rid) (reports a) \<rparr>, calls)
      | (Inl err, calls) \<Rightarrow>
          (a \<lparr> alerts := alerts a @ [''Failed to delete report: '' @ message err] \<rparr>, calls))"

text \<open>
  A row of the report table, for the report with the identifier \<open>rid\<close>. Time is in
  milliseconds. \<open>timers\<close> holds the deadlines of the pending \<open>setTimeout\<close> callbacks,
  \<open>awaiting\<close> says that \<open>handleDeleteClick\<close> is suspended on \<open>onDelete\<close>, and
  \<open>store_calls\<close> lists the identifiers passed to the store so far.
\<close>

datatype delete_state = idle | confirm | deleting

record row =
  deleteState :: delete_state
  timers :: "nat list"
  clock :: nat
  awaiting :: bool
  app :: app_state
  store_calls :: "string list"

datatype event =
    Click  \<comment> \<open>the delete button is pressed\<close>
  | Elapse nat  \<comment> \<open>time passes; the callbacks that fall due run\<close>
  | Settle  \<comment> \<open>the pending \<open>onDelete\<close> call completes\<close>

text \<open>
  \<open>handleDeleteClick\<close>. The button is disabled while the state is \<open>deleting\<close>, and
  the handler has no branch for that state.
\<close>

definition handleDeleteClick :: "store_delete \<Rightarrow> string \<Rightarrow> row \<Rightarrow> row" where
  "handleDeleteClick deleteDoc rid s =
     (if deleteState s = idle then
        s \<lparr> deleteState := confirm, timers := timers s @ [clock s + 3000] \<rparr>
      else if deleteState s = confirm then
        s \<lparr> deleteState := deleting, awaiting := True,
            store_calls := store_calls s @ snd (deleteReport deleteDoc rid) \<rparr>
      else s)"

text \<open>The callback of the timer: \<open>setDeleteState(prev => prev === 'confirm' ? 'idle' : prev)\<close>.\<close>

definition timer_fires :: "row \<Rightarrow> row" where
  "timer_fires s = s \<lparr> deleteState := (if deleteState s = confirm then idle else deleteState s) \<rparr>"

definition elapse :: "nat \<Rightarrow> row \<Rightarrow> row" where
  "elapse d s =
     (let now = clock s + d;
          due = filter (\<lambda>t. t \<le> now) (timers s);
          s' = fold (\<lambda>t. timer_fires) due s
      in s' \<lparr> clock := now, timers := filter (\<lambda>t. \<not> t \<le> now) (timers s) \<rparr>)"

text \<open>
  The rest of \<open>handleDeleteClick\<close> after \<open>await onDelete(report.id)\<close>: the outcome of
  \<open>handleDelete\<close> is applied to the application state and the row returns to \<open>idle\<close>.
\<close>

definition settle :: "store_delete \<Rightarrow> string \<Rightarrow> row \<Rightarrow> row" where
  "settle deleteDoc rid s =
     (if awaiting s then
        s \<lparr> app := fst (handleDelete deleteDoc rid (app s)), awaiting := False, deleteState := idle \<rparr>
      else s)"

fun step :: "store_delete \<Rightarrow> string \<Rightarrow> row \<Rightarrow> event \<Rightarrow> row" where
  "step deleteDoc rid s Click = handleDeleteClick deleteDoc rid s"
| "step deleteDoc rid s (Elapse d) = elapse d s"
| "step deleteDoc rid s Settle = settle deleteDoc rid s"

definition run :: "store_delete \<Rightarrow> string \<Rightarrow> row \<Rightarrow> event list \<Rightarrow> row" where
  "run deleteDoc rid s evs = foldl (step deleteDoc rid) s evs"

text \<open>A row as it is mounted: idle, no timer pending, nothing awaited.\<close>

definition mounted :: "nat \<Rightarrow> app_state \<Rightarrow> row" where
  "mounted now a =
     \<lparr> deleteState = idle, timers = [], clock = now, awaiting = False, app = a, store_calls = [] \<rparr>"

definition two_reports :: app_state where
  "two_reports = \<lparr> reports = [pothole_report, pothole_report \<lparr> id_report := ''r2'' \<rparr>], alerts = [] \<rparr>"

text \<open>A store whose rules deny every delete.\<close>

definition store_denies :: store_delete where
  "store_denies rid = Inl (FirestoreError ''permission-denied'' ''Missing or insufficient permissions.'')"

section \<open>Properties of the normalizer\<close>

lemma parseFloat_undefined: "parseFloat env None = Inr NaN"
  by (simp add: parseFloat_def toString_field_def parseFloat_str_def sign_part_def
      is_js_space_def is_digit_def code_def)

lemma no_timestamp_key:
  assumes "\<forall>k \<in> set (map fst data). \<not> starts_with k ''timestamp''"
  shows "get data ''timestamp'' = None" and "get data ''timestampJanuary'' = None"
    and "find (\<lambda>k. starts_with k ''timestamp'') (map fst data) = None"
proof -
  have a: "starts_with ''timestamp'' ''timestamp''" by simp
  have b: "starts_with ''timestampJanuary'' ''timestamp''" by simp
  from assms have none: "\<forall>k \<in> fst ` set data. \<not> starts_with k ''timestamp''"
    by simp
  from none a have "''timestamp'' \<notin> fst ` set data" by blast
  then show "get data ''timestamp'' = None"
    by (simp add: get_def map_of_eq_None_iff)
  from none b have "''timestampJanuary'' \<notin> fst ` set data" by blast
  then show "get data ''timestampJanuary'' = None"
    by (simp add: get_def map_of_eq_None_iff)
  from assms show "find (\<lambda>k. starts_with k ''timestamp'') (map fst data) = None"
    by (simp add: find_None_iff)
qed

text \<open>Two runtimes that print numbers alike convert every value to a string alike.\<close>

lemma toString_same_numbers:
  assumes "numberToString env1 = numberToString env2"
  shows "toString env1 v = toString env2 v"
proof (induction v)
  case (VNum n)
  then show ?case using assms by (cases n) simp_all
next
  case (VTimestamp t)
  then show ?case by (cases t) simp
next
  case (VArr xs)
  then have m: "map (\<lambda>x. if x = VNull then Inr [] else toString env1 x) xs
      = map (\<lambda>x. if x = VNull then Inr [] else toString env2 x) xs"
    by (intro map_cong) auto
  show ?case by (simp only: toString.simps m)
qed simp_all

lemma parseFloat_same_numbers:
  assumes "numberToString env1 = numberToString env2"
  shows "parseFloat env1 f = parseFloat env2 f"
  using toString_same_numbers [OF assms]
  by (simp add: parseFloat_def toString_field_def split: option.splits)

lemma timestampStr_temporal:
  assumes "get data ''timestamp'' = Some (VTimestamp t)"
  shows "timestampStr env data = Inr (toLocaleString env t)"
  using assms by (simp add: timestampStr_def)

lemma timestampStr_same_numbers:
  assumes "numberToString env1 = numberToString env2"
    and "(\<forall>t. get data ''timestamp'' \<noteq> Some (VTimestamp t)) \<or> toLocaleString env1 = toLocaleString env2"
  shows "timestampStr env1 data = timestampStr env2 data"
proof -
  have f: "toString_field env1 x = toString_field env2 x" for x
    using toString_same_numbers [OF assms(1)]
    by (simp add: toString_field_def split: option.splits)
  show ?thesis
    using assms(2) by (auto simp: timestampStr_def f split: option.splits jsval.splits)
qed

lemma timestampStr_fails_alike:
  assumes "numberToString env1 = numberToString env2"
  shows "timestampStr env1 data = Inl e \<longleftrightarrow> timestampStr env2 data = Inl e"
proof (cases "\<exists>t. get data ''timestamp'' = Some (VTimestamp t)")
  case True
  then show ?thesis by (auto simp: timestampStr_temporal)
next
  case False
  then show ?thesis using timestampStr_same_numbers [OF assms, of data] by simp
qed

lemma normalize_report_fields:
  assumes "normalize_report env now doc_id data = Inr r"
  shows "id_report r = doc_id"
    and "address r = or_default (get data ''address'') ''Unknown Location''"
    and "dateTime r = or_default (get data ''dateTime'') now"
    and "description r = or_default (get data ''description'') ''No description provided''"
    and "imageBase64 r = imgBase64 data"
    and "\<exists>lat. parseFloat env (get data ''latitude'') = Inr lat
           \<and> latitude r = (if isNaN lat then Fin 0 else lat)"
    and "\<exists>lng. parseFloat env (get data ''longitude'') = Inr lng
           \<and> longitude r = (if isNaN lng then Fin 0 else lng)"
    and "\<exists>s. timestampStr env data = Inr s \<and> timestampString r = Some s"
  using assms by (auto simp: normalize_report_def split: sum.splits)

lemma normalize_report_fails:
  "normalize_report env now doc_id data = Inl e \<longleftrightarrow>
     parseFloat env (get data ''latitude'') = Inl e
     \<or> (\<exists>lat. parseFloat env (get data ''latitude'') = Inr lat)
         \<and> (parseFloat env (get data ''longitude'') = Inl e
             \<or> (\<exists>lng. parseFloat env (get data ''longitude'') = Inr lng)
                 \<and> timestampStr env data = Inl e)"
  by (auto simp: normalize_report_def split: sum.splits)

text \<open>
  C4, as stated, fails. A document without a \<open>dateTime\<close> field is stamped with the
  instant of the run, so two runs on the same document differ in \<open>dateTime\<close>; and a
  temporal \<open>timestamp\<close> is rendered by the locale of the runtime, so two runs in
  different locales differ in \<open>timestampString\<close>.
\<close>

theorem normalize_twice_counterexample:
  "map_sum id dateTime (normalize_report example_env ''2026-01-15T09:30:00.000Z'' ''r1''
      [(''address'', VStr ''Jalan 1'')]) = Inr (VStr ''2026-01-15T09:30:00.000Z'')
   \<and> map_sum id dateTime (normalize_report example_env ''2026-01-15T09:30:01.000Z'' ''r1''
      [(''address'', VStr ''Jalan 1'')]) = Inr (VStr ''2026-01-15T09:30:01.000Z'')
   \<and> normalize_report example_env ''2026-01-15T09:30:00.000Z'' ''r1'' [(''address'', VStr ''Jalan 1'')]
       \<noteq> normalize_report example_env ''2026-01-15T09:30:01.000Z'' ''r1'' [(''address'', VStr ''Jalan 1'')]
   \<and> map_sum id timestampString (normalize_report example_env ''2026-01-15T09:30:00.000Z'' ''r1''
      [(''dateTime'', VStr ''2026-01-15''), (''timestamp'', VTimestamp (Timestamp 1768469400 0))])
       = Inr (Some ''1/15/2026, 9:30:00 AM'')
   \<and> map_sum id timestampString (normalize_report example_env_gb ''2026-01-15T09:30:00.000Z'' ''r1''
      [(''dateTime'', VStr ''2026-01-15''), (''timestamp'', VTimestamp (Timestamp 1768469400 0))])
       = Inr (Some ''15/01/2026, 09:30:00'')"
  by (simp add: normalize_report_def parseFloat_undefined get_def or_default_def timestampStr_def
      truthy_field_def example_env_def example_env_gb_def)

text \<open>
  Two runs in runtimes that print numbers alike: what the two outcomes share.
\<close>

lemma two_runs_agree:
  assumes "numberToString env1 = numberToString env2"
  shows "(normalize_report env1 now1 doc_id data = Inl e
            \<longleftrightarrow> normalize_report env2 now2 doc_id data = Inl e)
    \<and> (normalize_report env1 now1 doc_id data = Inr r1
          \<and> normalize_report env2 now2 doc_id data = Inr r2 \<longrightarrow>
        id_report r1 = id_report r2 \<and> address r1 = address r2
        \<and> description r1 = description r2 \<and> imageBase64 r1 = imageBase64 r2
        \<and> latitude r1 = latitude r2 \<and> longitude r1 = longitude r2
        \<and> (truthy_field (get data ''dateTime'') \<or> now1 = now2 \<longrightarrow> dateTime r1 = dateTime r2)
        \<and> (\<not> truthy_field (get data ''dateTime'') \<longrightarrow>
              dateTime r1 = VStr now1 \<and> dateTime r2 = VStr now2)
        \<and> ((\<forall>t. get data ''timestamp'' \<noteq> Some (VTimestamp t))
              \<or> toLocaleString env1 = toLocaleString env2 \<longrightarrow>
              timestampString r1 = timestampString r2)
        \<and> (get data ''timestamp'' = Some (VTimestamp t) \<longrightarrow>
              timestampString r1 = Some (toLocaleString env1 t)
              \<and> timestampString r2 = Some (toLocaleString env2 t)))"
proof (intro conjI impI)
  show "normalize_report env1 now1 doc_id data = Inl e
      \<longleftrightarrow> normalize_report env2 now2 doc_id data = Inl e"
    unfolding normalize_report_fails
    using parseFloat_same_numbers [OF assms] timestampStr_fails_alike [OF assms, of data e]
    by simp
next
  assume a: "normalize_report env1 now1 doc_id data = Inr r1
    \<and> normalize_report env2 now2 doc_id data = Inr r2"
  note f1 = normalize_report_fields [of env1 now1 doc_id data r1]
  note f2 = normalize_report_fields [of env2 now2 doc_id data r2]
  from a show "id_report r1 = id_report r2" using f1(1) f2(1) by simp
  from a show "address r1 = address r2" using f1(2) f2(2) by simp
  from a show "description r1 = description r2" using f1(4) f2(4) by simp
  from a show "imageBase64 r1 = imageBase64 r2" using f1(5) f2(5) by simp
  from a show "latitude r1 = latitude r2"
    using f1(6) f2(6) parseFloat_same_numbers [OF assms, of "get data ''latitude''"] by auto
  from a show "longitude r1 = longitude r2"
    using f1(7) f2(7) parseFloat_same_numbers [OF assms, of "get data ''longitude''"] by auto
  {
    assume "truthy_field (get data ''dateTime'') \<or> now1 = now2"
    with a show "dateTime r1 = dateTime r2"
      using f1(3) f2(3) by (auto simp: or_default_def truthy_field_def split: option.splits)
  }
  {
    assume n: "\<not> truthy_field (get data ''dateTime'')"
    with a show "dateTime r1 = VStr now1"
      using f1(3) by (auto simp: or_default_def truthy_field_def split: option.splits)
    from n a show "dateTime r2 = VStr now2"
      using f2(3) by (auto simp: or_default_def truthy_field_def split: option.splits)
  }
  {
    assume "(\<forall>t. get data ''timestamp'' \<noteq> Some (VTimestamp t))
      \<or> toLocaleString env1 = toLocaleString env2"
    from timestampStr_same_numbers [OF assms this] a
    show "timestampString r1 = timestampString r2"
      using f1(8) f2(8) by auto
  }
  {
    assume t: "get data ''timestamp'' = Some (VTimestamp t)"
    from a show "timestampString r1 = Some (toLocaleString env1 t)"
      using f1(8) timestampStr_temporal [OF t, of env1] by auto
    from a show "timestampString r2 = Some (toLocaleString env2 t)"
      using f2(8) timestampStr_temporal [OF t, of env2] by auto
  }
qed

text \<open>
  C4, amended: for every raw record, take two runs of the normalizer that differ in the
  instant read from the clock, \<open>now1\<close> and \<open>now2\<close>, and in how the runtime renders
  dates for its locale and time zone. One run fails exactly when the other does, and
  two reports agree in the identifier, the address, the description, the image and both
  coordinates. They agree in \<open>dateTime\<close> when the record has a truthy \<open>dateTime\<close>
  field or the two instants are the same; otherwise each holds the instant of its run.
  They agree in \<open>timestampString\<close> when the \<open>timestamp\<close> field is not the store's
  temporal object or the two runtimes render dates alike; otherwise each holds the
  rendering of its runtime.
\<close>

theorem normalize_two_runs:
  "(normalize_report env now1 doc_id data = Inl e
      \<longleftrightarrow> normalize_report (env \<lparr> toLocaleString := locale2 \<rparr>) now2 doc_id data = Inl e)
   \<and> (normalize_report env now1 doc_id data = Inr r1
        \<and> normalize_report (env \<lparr> toLocaleString := locale2 \<rparr>) now2 doc_id data = Inr r2 \<longrightarrow>
      id_report r1 = id_report r2 \<and> address r1 = address r2
      \<and> description r1 = description r2 \<and> imageBase64 r1 = imageBase64 r2
      \<and> latitude r1 = latitude r2 \<and> longitude r1 = longitude r2
      \<and> (truthy_field (get data ''dateTime'') \<or> now1 = now2 \<longrightarrow> dateTime r1 = dateTime r2)
      \<and> (\<not> truthy_field (get data ''dateTime'') \<longrightarrow>
            dateTime r1 = VStr now1 \<and> dateTime r2 = VStr now2)
      \<and> ((\<forall>t. get data ''timestamp'' \<noteq> Some (VTimestamp t)) \<or> toLocaleString env = locale2 \<longrightarrow>
            timestampString r1 = timestampString r2)
      \<and> (get data ''timestamp'' = Some (VTimestamp t) \<longrightarrow>
            timestampString r1 = Some (toLocaleString env t)
            \<and> timestampString r2 = Some (locale2 t)))"
proof -
  have same: "numberToString env = numberToString (env \<lparr> toLocaleString := locale2 \<rparr>)"
    by simp
  have other: "toLocaleString (env \<lparr> toLocaleString := locale2 \<rparr>) = locale2"
    by simp
  from two_runs_agree [OF same, of now1 doc_id data e now2 r1 r2 t]
  show ?thesis unfolding other .
qed

theorem normalize_two_runs_witness:
  "normalize_report example_env ''2026-01-15T09:30:00.000Z'' ''r1''
        [(''dateTime'', VStr ''2025-12-31T23:00:00.000Z'')]
       = normalize_report example_env_gb ''2026-01-15T09:30:01.000Z'' ''r1''
        [(''dateTime'', VStr ''2025-12-31T23:00:00.000Z'')]
   \<and> map_sum id dateTime (normalize_report example_env ''2026-01-15T09:30:00.000Z'' ''r1'' [])
       = Inr (VStr ''2026-01-15T09:30:00.000Z'')
   \<and> map_sum id dateTime (normalize_report example_env_gb ''2026-01-15T09:30:01.000Z'' ''r1'' [])
       = Inr (VStr ''2026-01-15T09:30:01.000Z'')
   \<and> map_sum id timestampString (normalize_report example_env ''2026-01-15T09:30:00.000Z'' ''r1''
        [(''timestamp'', VTimestamp (Timestamp 1768469400 0))]) = Inr (Some ''1/15/2026, 9:30:00 AM'')
   \<and> map_sum id timestampString (normalize_report example_env_gb ''2026-01-15T09:30:01.000Z'' ''r1''
        [(''timestamp'', VTimestamp (Timestamp 1768469400 0))]) = Inr (Some ''15/01/2026, 09:30:00'')"
proof -
  let ?t1 = "''2026-01-15T09:30:00.000Z''" and ?t2 = "''2026-01-15T09:30:01.000Z''"
  let ?dated = "[(''dateTime'', VStr ''2025-12-31T23:00:00.000Z'')]"
  let ?stamped = "[(''timestamp'', VTimestamp (Timestamp 1768469400 0))]"
  let ?gb = "\<lambda>t :: timestamp. ''15/01/2026, 09:30:00''"
  let ?r = "\<lambda>t s. \<lparr> id_report = ''r1'', address = VStr ''Unknown Location'', dateTime = VStr t,
      description = VStr ''No description provided'', imageBase64 = VStr [], latitude = Fin 0,
      longitude = Fin 0, timestampString = Some s \<rparr>"
  have gb: "example_env \<lparr> toLocaleString := ?gb \<rparr> = example_env_gb"
    by (simp add: example_env_def example_env_gb_def)
  have run: "normalize_report env now ''r1'' ?dated = Inr (?r ''2025-12-31T23:00:00.000Z'' ''Unknown Time'')"
    "normalize_report env now ''r1'' [] = Inr (?r now ''Unknown Time'')"
    "normalize_report env now ''r1'' ?stamped
      = Inr (?r now (toLocaleString env (Timestamp 1768469400 0)))" for env now
    by (simp_all add: normalize_report_def parseFloat_undefined get_def or_default_def
        timestampStr_def truthy_field_def imgBase64_def isNaN_def)
  have b: "dateTime (?r ?t1 ''Unknown Time'') = VStr ?t1"
      "dateTime (?r ?t2 ''Unknown Time'') = VStr ?t2"
    using normalize_two_runs [of example_env ?t1 "''r1''" "[]" "Error []" ?gb ?t2
        "?r ?t1 ''Unknown Time''" "?r ?t2 ''Unknown Time''" "Timestamp 0 0"]
    by (simp_all add: run)
  have c: "timestampString (?r ?t1 (toLocaleString example_env (Timestamp 1768469400 0)))
        = Some (toLocaleString example_env (Timestamp 1768469400 0))"
      "timestampString (?r ?t2 (?gb (Timestamp 1768469400 0))) = Some (?gb (Timestamp 1768469400 0))"
    using normalize_two_runs [of example_env ?t1 "''r1''" ?stamped "Error []" ?gb ?t2
        "?r ?t1 (toLocaleString example_env (Timestamp 1768469400 0))"
        "?r ?t2 (?gb (Timestamp 1768469400 0))" "Timestamp 1768469400 0"]
    by (simp_all add: run)
  show ?thesis
    using b c by (simp add: run example_env_def example_env_gb_def)
qed

text \<open>
  C5, as stated, fails in its second rule. An empty string in \<open>timestamp\<close> is a
  string-typed timestamp field, yet the month-literal key is rendered; a boolean in
  \<open>timestamp\<close> is not string-typed, yet it is rendered before the month-literal key.
\<close>

theorem timestamp_priority_counterexample:
  "timestampStr example_env [(''timestamp'', VStr []), (''timestampJanuary'', VStr ''5'')] = Inr ''January 5''
   \<and> timestampString_spec example_env [(''timestamp'', VStr []), (''timestampJanuary'', VStr ''5'')] = Inr []
   \<and> timestampStr example_env [(''timestamp'', VBool True), (''timestampJanuary'', VStr ''5'')] = Inr ''true''
   \<and> timestampString_spec example_env [(''timestamp'', VBool True), (''timestampJanuary'', VStr ''5'')]
       = Inr ''January 5''"
  by (simp add: timestampStr_def timestampString_spec_def get_def truthy_field_def
      toString_field_def)

text \<open>
  C5, amended: the normalized timestampString is resolved by first-match priority:
  (1) a \<open>timestamp\<close> field holding the store's temporal object, rendered by the locale;
  (2) a truthy \<open>timestamp\<close> field of any other type, rendered by \<open>String\<close>;
  (3) a truthy \<open>timestampJanuary\<close> field, rendered as \<open>January <value>\<close>;
  (4) the first field, in field order, whose name starts with \<open>timestamp\<close>, rendered by
  \<open>String\<close> (a falsy \<open>timestamp\<close> or \<open>timestampJanuary\<close> field counts here);
  (5) the literal \<open>Unknown Time\<close> when no field name starts with \<open>timestamp\<close>.
  A rendering by \<open>String\<close> is the outcome of \<open>String\<close> on the value, and the
  report built from the record holds the string resolved.
\<close>

theorem timestamp_priority:
  "(get data ''timestamp'' = Some (VTimestamp t) \<longrightarrow>
      timestampStr env data = Inr (toLocaleString env t))
   \<and> (get data ''timestamp'' = Some v \<and> truthy v \<and> (\<forall>t'. v \<noteq> VTimestamp t') \<longrightarrow>
      timestampStr env data = toString env v)
   \<and> (\<not> truthy_field (get data ''timestamp'') \<and> get data ''timestampJanuary'' = Some w \<and> truthy w \<longrightarrow>
      timestampStr env data = map_sum id ((@) ''January '') (toString env w))
   \<and> (\<not> truthy_field (get data ''timestamp'') \<and> \<not> truthy_field (get data ''timestampJanuary'')
        \<and> find (\<lambda>k. starts_with k ''timestamp'') (map fst data) = Some tsKey \<longrightarrow>
      timestampStr env data = toString_field env (get data tsKey))
   \<and> ((\<forall>k \<in> set (map fst data). \<not> starts_with k ''timestamp'') \<longrightarrow>
      timestampStr env data = Inr ''Unknown Time'')
   \<and> (normalize_report env now doc_id data = Inr r \<longrightarrow>
      Some (timestampStr env data) = map_option Inr (timestampString r))"
proof (intro conjI impI)
  assume "get data ''timestamp'' = Some (VTimestamp t)"
  then show "timestampStr env data = Inr (toLocaleString env t)"
    by (rule timestampStr_temporal)
next
  assume "get data ''timestamp'' = Some v \<and> truthy v \<and> (\<forall>t'. v \<noteq> VTimestamp t')"
  then show "timestampStr env data = toString env v"
    by (cases v) (simp_all add: timestampStr_def truthy_field_def toString_field_def)
next
  assume a: "\<not> truthy_field (get data ''timestamp'') \<and> get data ''timestampJanuary'' = Some w \<and> truthy w"
  then have "\<forall>t'. get data ''timestamp'' \<noteq> Some (VTimestamp t')"
    by (auto simp: truthy_field_def)
  with a show "timestampStr env data = map_sum id ((@) ''January '') (toString env w)"
    by (auto simp: timestampStr_def truthy_field_def toString_field_def
        split: option.splits jsval.splits sum.splits)
next
  assume a: "\<not> truthy_field (get data ''timestamp'') \<and> \<not> truthy_field (get data ''timestampJanuary'')
    \<and> find (\<lambda>k. starts_with k ''timestamp'') (map fst data) = Some tsKey"
  then have "\<forall>t'. get data ''timestamp'' \<noteq> Some (VTimestamp t')"
    by (auto simp: truthy_field_def)
  with a show "timestampStr env data = toString_field env (get data tsKey)"
    by (auto simp: timestampStr_def split: option.splits jsval.splits)
next
  assume "\<forall>k \<in> set (map fst data). \<not> starts_with k ''timestamp''"
  from no_timestamp_key [OF this] show "timestampStr env data = Inr ''Unknown Time''"
    by (simp add: timestampStr_def truthy_field_def)
next
  assume "normalize_report env now doc_id data = Inr r"
  from normalize_report_fields(8) [OF this]
  show "Some (timestampStr env data) = map_option Inr (timestampString r)"
    by auto
qed

theorem timestamp_priority_witness:
  "timestampStr example_env [(''timestamp'', VTimestamp (Timestamp 1768469400 0))]
     = Inr ''1/15/2026, 9:30:00 AM''
   \<and> timestampStr example_env [(''timestamp'', VStr ''yesterday 5pm'')] = Inr ''yesterday 5pm''
   \<and> timestampStr example_env [(''timestampJanuary'', VStr ''15'')] = Inr ''January 15''
   \<and> timestampStr example_env [(''address'', VStr ''Jalan 1''), (''timestampCreated'', VStr ''2026-01-15'')]
     = Inr ''2026-01-15''
   \<and> timestampStr example_env [(''address'', VStr ''Jalan 1'')] = Inr ''Unknown Time''
   \<and> normalize_report example_env ''2026-01-15T09:30:00.000Z'' ''r1'' [(''timestampJanuary'', VStr ''15'')]
     = Inr \<lparr> id_report = ''r1'', address = VStr ''Unknown Location'',
             dateTime = VStr ''2026-01-15T09:30:00.000Z'',
             description = VStr ''No description provided'', imageBase64 = VStr [],
             latitude = Fin 0, longitude = Fin 0, timestampString = Some ''January 15'' \<rparr>"
proof -
  let ?r = "\<lparr> id_report = ''r1'', address = VStr ''Unknown Location'',
             dateTime = VStr ''2026-01-15T09:30:00.000Z'',
             description = VStr ''No description provided'', imageBase64 = VStr [],
             latitude = Fin 0, longitude = Fin 0, timestampString = Some ''January 15'' \<rparr>"
  have run: "normalize_report example_env ''2026-01-15T09:30:00.000Z'' ''r1''
      [(''timestampJanuary'', VStr ''15'')] = Inr ?r"
    by (simp add: normalize_report_def parseFloat_undefined get_def or_default_def
        timestampStr_def truthy_field_def imgBase64_def isNaN_def toString_field_def)
  show ?thesis
    using run
      timestamp_priority [where env = example_env and v = VNull and w = VNull and tsKey = "[]"
        and data = "[(''timestamp'', VTimestamp (Timestamp 1768469400 0))]"
        and t = "Timestamp 1768469400 0" and now = "[]" and doc_id = "[]" and r = ?r]
      timestamp_priority [where env = example_env and t = "Timestamp 0 0" and w = VNull and tsKey = "[]"
        and data = "[(''timestamp'', VStr ''yesterday 5pm'')]" and v = "VStr ''yesterday 5pm''"
        and now = "[]" and doc_id = "[]" and r = ?r]
      timestamp_priority [where env = example_env and t = "Timestamp 0 0" and v = VNull and tsKey = "[]"
        and data = "[(''timestampJanuary'', VStr ''15'')]" and w = "VStr ''15''"
        and now = "''2026-01-15T09:30:00.000Z''" and doc_id = "''r1''" and r = ?r]
      timestamp_priority [where env = example_env and t = "Timestamp 0 0" and v = VNull and w = VNull
        and data = "[(''address'', VStr ''Jalan 1''), (''timestampCreated'', VStr ''2026-01-15'')]"
        and tsKey = "''timestampCreated''" and now = "[]" and doc_id = "[]" and r = ?r]
      timestamp_priority [where env = example_env and t = "Timestamp 0 0" and v = VNull and w = VNull
        and tsKey = "[]" and data = "[(''address'', VStr ''Jalan 1'')]"
        and now = "[]" and doc_id = "[]" and r = ?r]
    by (simp add: get_def truthy_field_def toString_field_def example_env_def)
qed

text \<open>
  The coordinates of a report that is built: 0 for a field that is absent or that
  \<open>parseFloat\<close> reads as NaN, and otherwise the number \<open>parseFloat\<close> reads.
\<close>

lemma coordinates_of_report:
  assumes "normalize_report env now doc_id data = Inr r"
  shows "(get data ''latitude'' = None \<or> parseFloat env (get data ''latitude'') = Inr NaN \<longrightarrow>
      latitude r = Fin 0)
   \<and> (parseFloat env (get data ''latitude'') = Inr n \<and> n \<noteq> NaN \<longrightarrow> latitude r = n)
   \<and> (get data ''longitude'' = None \<or> parseFloat env (get data ''longitude'') = Inr NaN \<longrightarrow>
      longitude r = Fin 0)
   \<and> (parseFloat env (get data ''longitude'') = Inr m \<and> m \<noteq> NaN \<longrightarrow> longitude r = m)"
  using normalize_report_fields(6,7) [OF assms]
    parseFloat_undefined [of env]
  by (auto simp: isNaN_def)


text \<open>
  C8 gives the coordinate 0 to every latitude or longitude that does not parse as a
  number. The code does so when \<open>parseFloat\<close> answers NaN, but \<open>parseFloat\<close> does not
  answer for every field: on a latitude that holds a map with a field named
  \<open>toString\<close> it throws, no report is built for the record, and \<open>fetchReports\<close>
  rejects instead of delivering a report with the coordinate 0.
\<close>

theorem unprintable_latitude_fails:
  "normalize_report example_env ''2026-01-15T09:30:00.000Z'' ''r1''
      [(''latitude'', VMap [(''toString'', VStr ''north'')]), (''longitude'', VStr ''101.797'')]
     = Inl TypeError
   \<and> fetchReports example_env (\<lambda>i. ''2026-01-15T09:30:00.000Z'')
        (Inr [(''r1'', [(''latitude'', VMap [(''toString'', VStr ''north'')]),
                        (''longitude'', VStr ''101.797'')])])
     = Inl (Error (message TypeError))"
  by (simp add: fetchReports_def normalize_report_def parseFloat_def toString_field_def get_def
      message_def)



section \<open>Properties of the analyzer and the auditor\<close>

text \<open>
  C7: \<open>analyzeReports\<close> on the empty batch returns \<open>null\<close>, which is a result and not
  an error, and issues no request to the classification service.
\<close>

theorem analyze_empty_batch:
  "analyzeReports parse generateContent [] = (Inr JNull, [])
   \<and> (\<forall>e. fst (analyzeReports parse generateContent []) \<noteq> Inl e)"
  by (simp add: analyzeReports_def)

text \<open>
  C3, as stated, fails: the response text \<open>{}\<close> is JSON but has neither the narrative
  nor the array of verdicts, and \<open>analyzeReports\<close> returns it as the analysis result.
\<close>

theorem analyze_schema_counterexample:
  "fst (analyzeReports JSON_parse (\<lambda>request. Inr (Some ''{}'')) [pothole_report]) = Inr (JObj [])
   \<and> \<not> conforms_AnalysisResult (JObj [])"
  by (simp add: analyzeReports_def JSON_parse_def lex_def is_json_space_def code_def open_value_def
      close_object_def take_key_def conforms_AnalysisResult_def field_string_def)

text \<open>
  C3, amended: for every non-empty batch, when the classification service returns a
  present response text, \<open>analyzeReports\<close> fails hard, propagating the error of
  \<open>JSON.parse\<close>, if the text is not JSON; a text that is JSON is returned as parsed,
  without any check against the schema.
\<close>

theorem analyze_parse_only:
  assumes "batch \<noteq> []"
    and "generateContent (AnalysisRequest (reportSummaries batch)) = Inr (Some t)"
    and "t \<noteq> []"
  shows "fst (analyzeReports parse generateContent batch) =
           (case parse t of None \<Rightarrow> Inl SyntaxError | Some v \<Rightarrow> Inr v)"
  using assms by (simp add: analyzeReports_def Let_def split: option.splits)

theorem analyze_parse_only_witness:
  "[pothole_report] \<noteq> []
   \<and> (\<lambda>request. Inr (Some ''Sorry, I cannot help with that.''))
        (AnalysisRequest (reportSummaries [pothole_report])) = Inr (Some ''Sorry, I cannot help with that.'')
   \<and> ''Sorry, I cannot help with that.'' \<noteq> []
   \<and> fst (analyzeReports JSON_parse (\<lambda>request. Inr (Some ''Sorry, I cannot help with that.''))
        [pothole_report]) = Inl SyntaxError"
  using analyze_parse_only [of "[pothole_report]"
      "\<lambda>request. Inr (Some ''Sorry, I cannot help with that.'')"
      "''Sorry, I cannot help with that.''" JSON_parse]
  by (simp add: JSON_parse_def lex_def is_json_space_def code_def is_digit_def)

text \<open>
  C6: a report whose image is empty or shorter than 50 characters makes
  \<open>verifyReportImage\<close> fail with the error \<open>No valid image to verify\<close> and no request
  issued; so does a report built from a raw record without an image field; and a
  request is issued only for an image of 50 characters or more.
\<close>

theorem verify_requires_image:
  "(length (imageBase64 r) < 50 \<longrightarrow>
      verifyReportImage parse generateContent r = (Inl (Error ''No valid image to verify''), []))
   \<and> (get data ''imageBase64'' = None \<and> normalize_report env now doc_id data = Inr built
        \<and> typed built = Some r \<longrightarrow>
      verifyReportImage parse generateContent r = (Inl (Error ''No valid image to verify''), []))
   \<and> (snd (verifyReportImage parse generateContent r) \<noteq> [] \<longrightarrow> 50 \<le> length (imageBase64 r))"
proof (intro conjI impI)
  assume "length (imageBase64 r) < 50"
  then show "verifyReportImage parse generateContent r = (Inl (Error ''No valid image to verify''), [])"
    by (simp add: verifyReportImage_def)
next
  assume a: "get data ''imageBase64'' = None \<and> normalize_report env now doc_id data = Inr built
    \<and> typed built = Some r"
  then have "imageBase64 built = VStr []"
    using normalize_report_fields(5) [of env now doc_id data built]
    by (simp add: imgBase64_def or_default_def)
  with a have "imageBase64 r = []"
    by (auto simp: typed_def split: jsval.splits)
  then show "verifyReportImage parse generateContent r = (Inl (Error ''No valid image to verify''), [])"
    by (simp add: verifyReportImage_def)
next
  assume "snd (verifyReportImage parse generateContent r) \<noteq> []"
  then show "50 \<le> length (imageBase64 r)"
    by (auto simp: verifyReportImage_def split: if_splits)
qed

theorem verify_requires_image_witness:
  "verifyReportImage JSON_parse (\<lambda>request. Inr None) pothole_report
     = (Inl (Error ''No valid image to verify''), [])
   \<and> verifyReportImage JSON_parse (\<lambda>request. Inr None)
       (pothole_report \<lparr> imageBase64 := ''data:image/png;base64,AAAA'' \<rparr>)
     = (Inl (Error ''No valid image to verify''), [])
   \<and> map_sum id typed (normalize_report example_env ''2026-01-15T09:30:00.000Z'' ''r1''
        [(''address'', VStr ''Jalan 1''), (''description'', VStr ''Deep pothole'')])
     = Inr (Some (pothole_report \<lparr> timestampString := Some ''Unknown Time'' \<rparr>))
   \<and> verifyReportImage JSON_parse (\<lambda>request. Inr None)
       (pothole_report \<lparr> timestampString := Some ''Unknown Time'' \<rparr>)
     = (Inl (Error ''No valid image to verify''), [])
   \<and> snd (verifyReportImage JSON_parse (\<lambda>request. Inr None) photo_report) \<noteq> []
   \<and> 50 \<le> length (imageBase64 photo_report)"
proof -
  let ?data = "[(''address'', VStr ''Jalan 1''), (''description'', VStr ''Deep pothole'')]"
  let ?built = "\<lparr> id_report = ''r1'', address = VStr ''Jalan 1'',
      dateTime = VStr ''2026-01-15T09:30:00.000Z'', description = VStr ''Deep pothole'',
      imageBase64 = VStr [], latitude = Fin 0, longitude = Fin 0,
      timestampString = Some ''Unknown Time'' \<rparr>"
  let ?none = "\<lambda>request :: gen_request. Inr None :: error + string option"
  have n: "normalize_report example_env ''2026-01-15T09:30:00.000Z'' ''r1'' ?data = Inr ?built"
    by (simp add: normalize_report_def or_default_def get_def imgBase64_def
        timestampStr_def truthy_field_def parseFloat_undefined isNaN_def)
  have t: "typed ?built = Some (pothole_report \<lparr> timestampString := Some ''Unknown Time'' \<rparr>)"
    by (simp add: typed_def pothole_report_def)
  have g: "get ?data ''imageBase64'' = None"
    by (simp add: get_def)
  have s: "snd (verifyReportImage JSON_parse ?none photo_report) \<noteq> []"
    by (simp add: verifyReportImage_def photo_report_def Let_def)
  have short: "length (imageBase64 pothole_report) < 50"
    "length (imageBase64 (pothole_report \<lparr> imageBase64 := ''data:image/png;base64,AAAA'' \<rparr>)) < 50"
    by (simp_all add: pothole_report_def)
  have a: "verifyReportImage JSON_parse ?none pothole_report
      = (Inl (Error ''No valid image to verify''), [])"
    using short(1) verify_requires_image [of pothole_report JSON_parse ?none "[]" example_env
        "[]" "[]" ?built]
    by blast
  have b: "verifyReportImage JSON_parse ?none
      (pothole_report \<lparr> imageBase64 := ''data:image/png;base64,AAAA'' \<rparr>)
      = (Inl (Error ''No valid image to verify''), [])"
    using short(2) verify_requires_image
        [of "pothole_report \<lparr> imageBase64 := ''data:image/png;base64,AAAA'' \<rparr>" JSON_parse
          ?none "[]" example_env "[]" "[]" ?built]
    by blast
  have c: "verifyReportImage JSON_parse ?none
      (pothole_report \<lparr> timestampString := Some ''Unknown Time'' \<rparr>)
      = (Inl (Error ''No valid image to verify''), [])"
    using g n t verify_requires_image
        [of "pothole_report \<lparr> timestampString := Some ''Unknown Time'' \<rparr>" JSON_parse ?none
          ?data example_env "''2026-01-15T09:30:00.000Z''" "''r1''" ?built]
    by blast
  have d: "50 \<le> length (imageBase64 photo_report)"
    using s verify_requires_image [of photo_report JSON_parse ?none "[]" example_env "[]" "[]"
        ?built]
    by blast
  show ?thesis
    using a b c d s by (simp add: n t)
qed

text \<open>
  C10: for a report that passes the image precondition, when the audit service answers
  without failing and the text of its response is missing or empty,
  \<open>verifyReportImage\<close> returns \<open>null\<close>: neither a verification result nor an error.
\<close>

theorem verify_empty_response:
  assumes "50 \<le> length (imageBase64 r)"
    and "generateContent (audit_request r) = Inr response_text"
    and "response_text = None \<or> response_text = Some []"
  shows "verifyReportImage parse generateContent r = (Inr JNull, [audit_request r])"
proof -
  from assms(1) have "imageBase64 r \<noteq> []" and "\<not> length (imageBase64 r) < 50"
    by auto
  with assms(2,3) show ?thesis
    by (auto simp: verifyReportImage_def Let_def)
qed

theorem verify_empty_response_witness:
  "50 \<le> length (imageBase64 photo_report)
   \<and> (\<lambda>request. Inr (Some [])) (audit_request photo_report) = (Inr (Some []) :: error + string option)
   \<and> verifyReportImage JSON_parse (\<lambda>request. Inr (Some [])) photo_report
       = (Inr JNull, [audit_request photo_report])"
  using verify_empty_response [of photo_report "\<lambda>request. Inr (Some [])" "Some []" JSON_parse]
  by (simp add: photo_report_def)

section \<open>Properties of the consultation session\<close>

text \<open>
  C1, as stated, fails: when the chat service fails, \<open>handleSendChat\<close> appends a
  message with the role \<open>model\<close> after the operator's message.
\<close>

theorem send_failure_counterexample:
  "map role (messages (fst (handleSendChat 1000 2000
      \<lparr> messages = [], input = ''Which team handles r1?'', chatLoading = False,
        chatRef = Some (\<lambda>msg. Inl (Error ''503 Service Unavailable'')) \<rparr>)))
   = [user, model]"
  by (simp add: handleSendChat_def sendChatMessage_def trim_def is_js_space_def code_def Let_def)

text \<open>
  C1, amended: for every consultation session, when a message is sent and the chat
  service call fails, \<open>sendChatMessage\<close> surfaces the failure to its caller
  \<open>handleSendChat\<close>; \<open>handleSendChat\<close> keeps the operator's message recorded and
  appends after it one message with the role \<open>model\<close> and the fixed text
  \<open>Sorry, I encountered an error responding to that.\<close>, no text of the service.
\<close>

theorem send_failure_appends_apology:
  assumes "chatRef p = Some chat" and "trim (input p) \<noteq> []" and "chat (input p) = Inl e"
  shows "fst (sendChatMessage chat (input p)) = Inl e
    \<and> messages (fst (handleSendChat sent_at replied_at p)) =
        messages p @
          [\<lparr> role = user, text_msg = input p, timestamp = Some sent_at \<rparr>,
           \<lparr> role = model, text_msg = ''Sorry, I encountered an error responding to that.'',
             timestamp = Some replied_at \<rparr>]"
  using assms by (simp add: handleSendChat_def sendChatMessage_def Let_def)

theorem send_failure_appends_apology_witness:
  "trim ''Which team handles r1?'' \<noteq> []
   \<and> messages (fst (handleSendChat 1000 2000
        \<lparr> messages = [], input = ''Which team handles r1?'', chatLoading = False,
          chatRef = Some (\<lambda>msg. Inl (Error ''503 Service Unavailable'')) \<rparr>)) =
       [\<lparr> role = user, text_msg = ''Which team handles r1?'', timestamp = Some 1000 \<rparr>,
        \<lparr> role = model, text_msg = ''Sorry, I encountered an error responding to that.'',
          timestamp = Some 2000 \<rparr>]"
proof -
  have t: "trim ''Which team handles r1?'' \<noteq> []"
    by (simp add: trim_def is_js_space_def code_def)
  show ?thesis
    using t send_failure_appends_apology
      [of "\<lparr> messages = [], input = ''Which team handles r1?'', chatLoading = False,
            chatRef = Some (\<lambda>msg. Inl (Error ''503 Service Unavailable'')) \<rparr>"
          "\<lambda>msg. Inl (Error ''503 Service Unavailable'')" "Error ''503 Service Unavailable''"
          1000 2000]
    by simp
qed

section \<open>Properties of the workflow\<close>

lemma fold_timer_fires:
  "deleteState (fold (\<lambda>t. timer_fires) ts s) =
     (if ts \<noteq> [] \<and> deleteState s = confirm then idle else deleteState s)"
  by (induction ts arbitrary: s) (auto simp: timer_fires_def)

lemma fold_timer_fires_rest:
  "app (fold (\<lambda>t. timer_fires) ts s) = app s"
  "store_calls (fold (\<lambda>t. timer_fires) ts s) = store_calls s"
  "awaiting (fold (\<lambda>t. timer_fires) ts s) = awaiting s"
  by (induction ts arbitrary: s) (auto simp: timer_fires_def)

lemma elapse_fields:
  "deleteState (elapse d s) =
     (if (\<exists>t \<in> set (timers s). t \<le> clock s + d) \<and> deleteState s = confirm then idle
      else deleteState s)"
  "app (elapse d s) = app s"
  "store_calls (elapse d s) = store_calls s"
  "awaiting (elapse d s) = awaiting s"
  "clock (elapse d s) = clock s + d"
  by (auto simp: elapse_def Let_def fold_timer_fires fold_timer_fires_rest filter_empty_conv)

lemma elapse_timers: "timers (elapse d s) = filter (\<lambda>t. \<not> t \<le> clock s + d) (timers s)"
  by (simp add: elapse_def Let_def)

lemma deleteReport_calls: "rid \<noteq> [] \<Longrightarrow> snd (deleteReport deleteDoc rid) = [rid]"
  by (simp add: deleteReport_def split: sum.splits error.splits)

lemma click_idle:
  assumes "deleteState s = idle"
  shows "step deleteDoc rid s Click = s \<lparr> deleteState := confirm, timers := timers s @ [clock s + 3000] \<rparr>"
  using assms by (simp add: handleDeleteClick_def)

lemma click_confirm:
  assumes "rid \<noteq> []" and "deleteState s = confirm"
  shows "step deleteDoc rid s Click =
    s \<lparr> deleteState := deleting, awaiting := True, store_calls := store_calls s @ [rid] \<rparr>"
  using assms by (simp add: handleDeleteClick_def deleteReport_calls)

lemma handleDelete_success:
  assumes "rid \<noteq> []" and "deleteDoc rid = Inr ()"
  shows "fst (handleDelete deleteDoc rid a) = a \<lparr> reports := filter (\<lambda>r. id_report r \<noteq> rid) (reports a) \<rparr>"
  using assms by (simp add: handleDelete_def deleteReport_def)

lemma handleDelete_failure:
  assumes "deleteDoc rid = Inl e"
  shows "reports (fst (handleDelete deleteDoc rid a)) = reports a"
  using assms by (simp add: handleDelete_def deleteReport_def split: error.splits)

lemma settle_success:
  assumes "rid \<noteq> []" and "awaiting s" and "deleteDoc rid = Inr ()"
  shows "deleteState (step deleteDoc rid s Settle) = idle"
    and "reports (app (step deleteDoc rid s Settle)) = filter (\<lambda>r. id_report r \<noteq> rid) (reports (app s))"
    and "store_calls (step deleteDoc rid s Settle) = store_calls s"
  using assms by (simp_all add: settle_def handleDelete_success)

lemma settle_failure:
  assumes "awaiting s" and "deleteDoc rid = Inl e"
  shows "deleteState (step deleteDoc rid s Settle) = idle"
    and "reports (app (step deleteDoc rid s Settle)) = reports (app s)"
  using assms by (simp_all add: settle_def handleDelete_failure)

lemma timer_reverts_confirm:
  assumes "deleteState s = confirm" and "\<exists>t \<in> set (timers s). t \<le> clock s + d"
  shows "deleteState (step deleteDoc rid s (Elapse d)) = idle"
    and "store_calls (step deleteDoc rid s (Elapse d)) = store_calls s"
    and "app (step deleteDoc rid s (Elapse d)) = app s"
  using assms by (simp_all add: elapse_fields)

lemma timer_ignored_deleting:
  assumes "deleteState s = deleting"
  shows "deleteState (step deleteDoc rid s (Elapse d)) = deleting"
  using assms by (simp add: elapse_fields)

lemma run_confirm:
  "run deleteDoc rid (mounted now a) [Click] =
     \<lparr> deleteState = confirm, timers = [now + 3000], clock = now, awaiting = False, app = a,
       store_calls = [] \<rparr>"
  by (simp add: run_def mounted_def handleDeleteClick_def)

lemma run_second_request:
  assumes "rid \<noteq> []" and "d < 3000"
  shows "run deleteDoc rid (mounted now a) [Click, Elapse d, Click] =
     \<lparr> deleteState = deleting, timers = [now + 3000], clock = now + d, awaiting = True, app = a,
       store_calls = [rid] \<rparr>"
  using assms
  by (simp add: run_def mounted_def handleDeleteClick_def elapse_def Let_def deleteReport_calls)

lemma run_deleted:
  assumes "rid \<noteq> []" and "d < 3000" and "deleteDoc rid = Inr ()"
  shows "deleteState (run deleteDoc rid (mounted now a) [Click, Elapse d, Click, Elapse d', Settle]) = idle"
    and "reports (app (run deleteDoc rid (mounted now a) [Click, Elapse d, Click, Elapse d', Settle]))
          = filter (\<lambda>r. id_report r \<noteq> rid) (reports a)"
    and "store_calls (run deleteDoc rid (mounted now a) [Click, Elapse d, Click, Elapse d', Settle]) = [rid]"
proof -
  let ?s = "run deleteDoc rid (mounted now a) [Click, Elapse d, Click]"
  have r: "run deleteDoc rid (mounted now a) [Click, Elapse d, Click, Elapse d', Settle]
      = step deleteDoc rid (step deleteDoc rid ?s (Elapse d')) Settle"
    by (simp add: run_def)
  have s: "awaiting (step deleteDoc rid ?s (Elapse d'))"
    "app (step deleteDoc rid ?s (Elapse d')) = a"
    "store_calls (step deleteDoc rid ?s (Elapse d')) = [rid]"
    using assms(1,2) by (simp_all add: run_second_request elapse_fields)
  let ?t = "step deleteDoc rid ?s (Elapse d')"
  show "deleteState (run deleteDoc rid (mounted now a) [Click, Elapse d, Click, Elapse d', Settle]) = idle"
    unfolding r using settle_success(1) [of rid ?t deleteDoc] assms(1,3) s(1) by simp
  show "reports (app (run deleteDoc rid (mounted now a) [Click, Elapse d, Click, Elapse d', Settle]))
          = filter (\<lambda>r. id_report r \<noteq> rid) (reports a)"
    unfolding r using settle_success(2) [of rid ?t deleteDoc] assms(1,3) s(1,2) by simp
  show "store_calls (run deleteDoc rid (mounted now a) [Click, Elapse d, Click, Elapse d', Settle]) = [rid]"
    unfolding r using settle_success(3) [of rid ?t deleteDoc] assms(1,3) s(1,3) by simp
qed

lemma run_reverted:
  assumes "3000 \<le> d"
  shows "run deleteDoc rid (mounted now a) [Click, Elapse d] =
     \<lparr> deleteState = idle, timers = [], clock = now + d, awaiting = False, app = a,
       store_calls = [] \<rparr>"
  using assms
  by (simp add: run_def mounted_def handleDeleteClick_def elapse_def Let_def timer_fires_def)

text \<open>
  What holds of the workflow, for a row whose identifier \<open>rid\<close> is not empty.
  A delete request in \<open>idle\<close> moves to \<open>confirm\<close> and arms a timer 3000 ms ahead,
  with no store call. A delete request in \<open>confirm\<close> moves to \<open>deleting\<close> and issues
  the store's delete for \<open>rid\<close>. When that call succeeds, the report is removed from the
  working set and the state is \<open>idle\<close>; when it fails, the state is \<open>idle\<close> and the
  working set is unchanged. A timer that falls due in \<open>confirm\<close> moves to \<open>idle\<close>
  with no store call and the working set unchanged; in \<open>deleting\<close> it changes nothing.
  On a freshly mounted row, where no timer is pending: a second request less than 3000 ms
  after the first moves to \<open>deleting\<close> with one store call, and on store success the
  report is gone and the row idle, whether or not the timer falls due while the call is
  pending; with no second request for 3000 ms the row is idle again, no store call made,
  the working set as it was.
\<close>

lemma deletion_transitions:
  assumes "rid \<noteq> []"
  shows "(deleteState s = idle \<longrightarrow>
            step deleteDoc rid s Click =
              s \<lparr> deleteState := confirm, timers := timers s @ [clock s + 3000] \<rparr>)
    \<and> (deleteState s = confirm \<longrightarrow>
            step deleteDoc rid s Click =
              s \<lparr> deleteState := deleting, awaiting := True, store_calls := store_calls s @ [rid] \<rparr>)
    \<and> (deleteState s = deleting \<and> awaiting s \<and> deleteDoc rid = Inr () \<longrightarrow>
            deleteState (step deleteDoc rid s Settle) = idle
            \<and> reports (app (step deleteDoc rid s Settle))
                = filter (\<lambda>r. id_report r \<noteq> rid) (reports (app s))
            \<and> rid \<notin> id_report ` set (reports (app (step deleteDoc rid s Settle))))
    \<and> (deleteState s = deleting \<and> awaiting s \<and> deleteDoc rid = Inl e \<longrightarrow>
            deleteState (step deleteDoc rid s Settle) = idle
            \<and> reports (app (step deleteDoc rid s Settle)) = reports (app s))
    \<and> (deleteState s = confirm \<and> (\<exists>t \<in> set (timers s). t \<le> clock s + d) \<longrightarrow>
            deleteState (step deleteDoc rid s (Elapse d)) = idle
            \<and> store_calls (step deleteDoc rid s (Elapse d)) = store_calls s
            \<and> app (step deleteDoc rid s (Elapse d)) = app s)
    \<and> (deleteState s = deleting \<longrightarrow> deleteState (step deleteDoc rid s (Elapse d)) = deleting)
    \<and> (d < 3000 \<longrightarrow>
            deleteState (run deleteDoc rid (mounted now a) [Click, Elapse d, Click]) = deleting
            \<and> store_calls (run deleteDoc rid (mounted now a) [Click, Elapse d, Click]) = [rid])
    \<and> (d < 3000 \<and> deleteDoc rid = Inr () \<longrightarrow>
            deleteState (run deleteDoc rid (mounted now a) [Click, Elapse d, Click, Elapse d', Settle]) = idle
            \<and> reports (app (run deleteDoc rid (mounted now a) [Click, Elapse d, Click, Elapse d', Settle]))
                = filter (\<lambda>r. id_report r \<noteq> rid) (reports a))
    \<and> (3000 \<le> d \<longrightarrow>
            deleteState (run deleteDoc rid (mounted now a) [Click, Elapse d]) = idle
            \<and> store_calls (run deleteDoc rid (mounted now a) [Click, Elapse d]) = []
            \<and> app (run deleteDoc rid (mounted now a) [Click, Elapse d]) = a)"
proof (intro conjI impI)
  assume "deleteState s = idle"
  then show "step deleteDoc rid s Click =
      s \<lparr> deleteState := confirm, timers := timers s @ [clock s + 3000] \<rparr>"
    by (rule click_idle)
next
  assume "deleteState s = confirm"
  with assms show "step deleteDoc rid s Click =
      s \<lparr> deleteState := deleting, awaiting := True, store_calls := store_calls s @ [rid] \<rparr>"
    by (rule click_confirm)
next
  assume a: "deleteState s = deleting \<and> awaiting s \<and> deleteDoc rid = Inr ()"
  then show "deleteState (step deleteDoc rid s Settle) = idle"
    using settle_success(1) [of rid s deleteDoc] assms by simp
  from a show f: "reports (app (step deleteDoc rid s Settle))
      = filter (\<lambda>r. id_report r \<noteq> rid) (reports (app s))"
    using settle_success(2) [of rid s deleteDoc] assms by simp
  show "rid \<notin> id_report ` set (reports (app (step deleteDoc rid s Settle)))"
    unfolding f by auto
next
  assume a: "deleteState s = deleting \<and> awaiting s \<and> deleteDoc rid = Inl e"
  then show "deleteState (step deleteDoc rid s Settle) = idle"
    using settle_failure(1) [of s deleteDoc rid e] by simp
  from a show "reports (app (step deleteDoc rid s Settle)) = reports (app s)"
    using settle_failure(2) [of s deleteDoc rid e] by simp
next
  assume a: "deleteState s = confirm \<and> (\<exists>t \<in> set (timers s). t \<le> clock s + d)"
  then show "deleteState (step deleteDoc rid s (Elapse d)) = idle"
    using timer_reverts_confirm(1) [of s d] by simp
  from a show "store_calls (step deleteDoc rid s (Elapse d)) = store_calls s"
    using timer_reverts_confirm(2) [of s d] by simp
  from a show "app (step deleteDoc rid s (Elapse d)) = app s"
    using timer_reverts_confirm(3) [of s d] by simp
next
  assume "deleteState s = deleting"
  then show "deleteState (step deleteDoc rid s (Elapse d)) = deleting"
    by (rule timer_ignored_deleting)
next
  assume a: "d < 3000"
  show "deleteState (run deleteDoc rid (mounted now a) [Click, Elapse d, Click]) = deleting"
    by (simp add: run_second_request [OF assms a])
  show "store_calls (run deleteDoc rid (mounted now a) [Click, Elapse d, Click]) = [rid]"
    by (simp add: run_second_request [OF assms a])
next
  assume a: "d < 3000 \<and> deleteDoc rid = Inr ()"
  then show "deleteState (run deleteDoc rid (mounted now a) [Click, Elapse d, Click, Elapse d', Settle]) = idle"
    using run_deleted(1) [of rid d deleteDoc now a d'] assms by simp
  from a show "reports (app (run deleteDoc rid (mounted now a) [Click, Elapse d, Click, Elapse d', Settle]))
      = filter (\<lambda>r. id_report r \<noteq> rid) (reports a)"
    using run_deleted(2) [of rid d deleteDoc now a d'] assms by simp
next
  assume a: "3000 \<le> d"
  show "deleteState (run deleteDoc rid (mounted now a) [Click, Elapse d]) = idle"
    by (simp add: run_reverted [OF a])
  show "store_calls (run deleteDoc rid (mounted now a) [Click, Elapse d]) = []"
    by (simp add: run_reverted [OF a])
  show "app (run deleteDoc rid (mounted now a) [Click, Elapse d]) = a"
    by (simp add: run_reverted [OF a])
qed

text \<open>
  C2 has a second request, made before the timer of the first fires, move the row to
  \<open>deleting\<close> and issue the store's delete. The code never clears a timer, and its
  callback only asks whether the row is in \<open>confirm\<close>. So the timer of a cycle whose
  delete failed is still pending when the operator starts again, and it reverts the new
  cycle. Here the store denies the delete confirmed at 500 ms; the operator asks again
  at 1500 ms; the timer armed at 0 ms falls due at 3000 ms and puts the row back to
  \<open>idle\<close>; the request at 3100 ms, 1600 ms after the first request of its cycle and
  1400 ms before the timer of that cycle, finds the row idle. The row is in \<open>confirm\<close>
  again, not in \<open>deleting\<close>, and the store has been called for the first cycle only.
\<close>

theorem stale_timer_reverts_second_cycle:
  "run store_denies ''r1'' (mounted 0 two_reports)
      [Click, Elapse 500, Click, Settle, Elapse 1000, Click] =
     \<lparr> deleteState = confirm, timers = [3000, 4500], clock = 1500, awaiting = False,
       app = two_reports \<lparr> alerts := [''Failed to delete report: Permission denied: You do not have rights to delete this report.''] \<rparr>,
       store_calls = [''r1''] \<rparr>
   \<and> deleteState (run store_denies ''r1'' (mounted 0 two_reports)
        [Click, Elapse 500, Click, Settle, Elapse 1000, Click, Elapse 1600]) = idle
   \<and> run store_denies ''r1'' (mounted 0 two_reports)
        [Click, Elapse 500, Click, Settle, Elapse 1000, Click, Elapse 1600, Click] =
     \<lparr> deleteState = confirm, timers = [4500, 6100], clock = 3100, awaiting = False,
       app = two_reports \<lparr> alerts := [''Failed to delete report: Permission denied: You do not have rights to delete this report.''] \<rparr>,
       store_calls = [''r1''] \<rparr>"
  by (simp add: run_def mounted_def store_denies_def handleDeleteClick_def elapse_def settle_def
      handleDelete_def deleteReport_def timer_fires_def message_def Let_def two_reports_def)

end
